theory Spec2Isabelle
  imports Main
begin

section \<open>Values and exceptions\<close>

text \<open>
  The two scripts exchange integers and strings with the contracts (felts, addresses,
  short names). Every failure is an exception derived from Python's \<open>Exception\<close>; it is
  modelled by its class and the text that \<open>str(e)\<close> shows. \<open>RecordNotFound\<close> stands for
  the failure of a query whose record does not exist, \<open>ClientError\<close> for every other
  failure reported by the network client (transport error, reverted transaction).
\<close>

datatype pyval = PyInt int | PyStr string | PyNone

datatype exn_class =
    ValueError | KeyError | TypeError | AttributeError | OverflowError | ZeroDivisionError
  | FileNotFoundError | OSError | RecordNotFound | ClientError

datatype exn = Exn (exn_class: exn_class) (message: string)

definition is_not_found :: "exn \<Rightarrow> bool" where
  "is_not_found e = (exn_class e = RecordNotFound)"

datatype json = JNull | JInt int | JStr string | JObj "(string \<times> json) list"

section \<open>Python's number formatting\<close>

text \<open>
  \<open>a / b\<close> on integers is true division: the binary64 number nearest to the exact
  quotient, ties to even, and OverflowError beyond the largest finite float. A float is
  kept as sign, integer mantissa and binary exponent, its value being
  \<open>mantissa * 2 ^ exponent\<close>.
\<close>

datatype pyfloat = Float (negative: bool) (mantissa: int) (exponent: int)

function bit_length :: "int \<Rightarrow> nat" where
  "bit_length n = (if n \<le> 0 then 0 else Suc (bit_length (n div 2)))"
  by pat_completeness auto
termination
  by (relation "measure nat") auto

declare bit_length.simps [simp del]

definition round_half_even :: "int \<Rightarrow> int \<Rightarrow> int" where
  "round_half_even a b =
     (let q = a div b; r = a mod b
      in if 2 * r < b then q else if b < 2 * r then q + 1
         else if even q then q else q + 1)"

definition scaled :: "int \<Rightarrow> int \<Rightarrow> int \<times> int" where
  \<comment> \<open>\<open>m * 2 ^ k\<close> as a fraction of two non-negative integers\<close>
  "scaled m k = (if 0 \<le> k then (m * 2 ^ nat k, 1) else (m, 2 ^ nat (- k)))"

definition floor_log2 :: "int \<Rightarrow> int \<Rightarrow> int" where
  "floor_log2 a b =
     (let d = int (bit_length a) - int (bit_length b)
      in if (if 0 \<le> d then b * 2 ^ nat d \<le> a else b \<le> a * 2 ^ nat (- d))
         then d else d - 1)"

definition nearest_double :: "int \<Rightarrow> int \<Rightarrow> int \<times> int" where
  \<comment> \<open>mantissa and exponent of the binary64 number nearest to \<open>a / b\<close>, for \<open>0 \<le> a\<close>, \<open>0 < b\<close>\<close>
  "nearest_double a b =
     (if a = 0 then (0, 0)
      else let k = max (floor_log2 a b - 52) (- 1074);
               (n, d) = (if 0 \<le> k then (a, b * 2 ^ nat k) else (a * 2 ^ nat (- k), b))
           in (round_half_even n d, k))"

definition too_large :: "int \<times> int \<Rightarrow> bool" where
  "too_large f = (case f of (m, k) \<Rightarrow> 0 \<le> k \<and> 2 ^ 1024 \<le> m * 2 ^ nat k)"

definition same_value :: "int \<times> int \<Rightarrow> int \<times> int \<Rightarrow> bool" where
  "same_value f g =
     (case (f, g) of ((m, k), (n, j)) \<Rightarrow>
        fst (scaled m k) * snd (scaled n j) = fst (scaled n j) * snd (scaled m k))"

definition truediv :: "int \<Rightarrow> int \<Rightarrow> exn + pyfloat" where
  "truediv a b =
     (if b = 0 then Inl (Exn ZeroDivisionError ''division by zero'')
      else let f = nearest_double \<bar>a\<bar> \<bar>b\<bar>
           in if too_large f
              then Inl (Exn OverflowError ''integer division result too large for a float'')
              else Inr (Float ((a < 0) \<noteq> (b < 0) \<and> a \<noteq> 0) (fst f) (snd f)))"

function digits10 :: "int \<Rightarrow> string" where
  "digits10 n = (if n < 10 then [''0123456789'' ! nat n]
                 else digits10 (n div 10) @ [''0123456789'' ! nat (n mod 10)])"
  by pat_completeness auto
termination
  by (relation "measure nat") auto

declare digits10.simps [simp del]

function digits16 :: "int \<Rightarrow> string" where
  "digits16 n = (if n < 16 then [''0123456789abcdef'' ! nat n]
                 else digits16 (n div 16) @ [''0123456789abcdef'' ! nat (n mod 16)])"
  by pat_completeness auto
termination
  by (relation "measure nat") auto

declare digits16.simps [simp del]

fun group3 :: "string \<Rightarrow> string" where
  "group3 ds = (if length ds \<le> 3 then ds
                else group3 (take (length ds - 3) ds) @ '','' @ drop (length ds - 3) ds)"

declare group3.simps [simp del]

definition str_int :: "int \<Rightarrow> string" where
  \<comment> \<open>\<open>str(n)\<close>\<close>
  "str_int n = (if n < 0 then ''-'' @ digits10 (- n) else digits10 n)"

definition comma_int :: "int \<Rightarrow> string" where
  \<comment> \<open>\<open>format(n, ',')\<close>\<close>
  "comma_int n = (if n < 0 then ''-'' @ group3 (digits10 (- n)) else group3 (digits10 n))"

definition hex_int :: "int \<Rightarrow> string" where
  \<comment> \<open>\<open>hex(n)\<close>\<close>
  "hex_int n = (if n < 0 then ''-0x'' @ digits16 (- n) else ''0x'' @ digits16 n)"

definition format_fixed :: "nat \<Rightarrow> pyfloat \<Rightarrow> string" where
  \<comment> \<open>\<open>format(x, ',.pf')\<close>: \<open>p\<close> decimals of the exact value, ties to even, thousands grouped\<close>
  "format_fixed p x =
     (let (n, d) = scaled (mantissa x * 10 ^ p) (exponent x);
          r = round_half_even n d;
          frac = digits10 (r mod 10 ^ p)
      in (if negative x then ''-'' else '''')
         @ group3 (digits10 (r div 10 ^ p))
         @ (if p = 0 then '''' else ''.'' @ replicate (p - length frac) (CHR ''0'') @ frac))"

fun decimal_point :: "nat \<Rightarrow> int \<Rightarrow> int \<Rightarrow> int" where
  \<comment> \<open>the \<open>e\<close> with \<open>10 ^ (e - 1) \<le> n / d < 10 ^ e\<close>\<close>
  "decimal_point 0 n d = 1"
| "decimal_point (Suc fuel) n d =
     (if d \<le> n then int (length (digits10 (n div d)))
      else decimal_point fuel (n * 10) d - 1)"

definition pow10_scaled :: "int \<times> int \<Rightarrow> int \<Rightarrow> int \<times> int" where
  "pow10_scaled q j = (case q of (n, d) \<Rightarrow>
      if 0 \<le> j then (n * 10 ^ nat j, d) else (n, d * 10 ^ nat (- j)))"

definition round_trips :: "pyfloat \<Rightarrow> int \<Rightarrow> int \<Rightarrow> bool" where
  \<comment> \<open>the decimal \<open>c * 10 ^ j\<close> reads back as the float \<open>x\<close>\<close>
  "round_trips x c j =
     (case pow10_scaled (c, 1) j of (n, d) \<Rightarrow>
        same_value (nearest_double n d) (mantissa x, exponent x))"

fun shortest_digits :: "nat \<Rightarrow> nat \<Rightarrow> pyfloat \<Rightarrow> int \<Rightarrow> int \<times> int" where
  \<comment> \<open>the shortest decimal, from \<open>p\<close> significant digits on, that reads back as \<open>x\<close>\<close>
  "shortest_digits 0 p x e10 = (0, 0)"
| "shortest_digits (Suc fuel) p x e10 =
     (let j = e10 - int p;
          (n, d) = pow10_scaled (scaled (mantissa x) (exponent x)) (- j);
          lo = n div d; hi = lo + 1;
          lo_ok = round_trips x lo j; hi_ok = round_trips x hi j
      in if lo_ok \<and> hi_ok then (round_half_even n d, j)
         else if lo_ok then (lo, j)
         else if hi_ok then (hi, j)
         else shortest_digits fuel (Suc p) x e10)"

definition strip_zeros :: "string \<Rightarrow> string" where
  "strip_zeros ds = rev (dropWhile (\<lambda>c. c = CHR ''0'') (rev ds))"

definition repr_float :: "pyfloat \<Rightarrow> string" where
  \<comment> \<open>\<open>str(x)\<close>: the shortest digits that read back as \<open>x\<close>, in fixed notation from
      \<open>1e-4\<close> up to \<open>1e16\<close> and in exponent notation outside\<close>
  "repr_float x =
     (if mantissa x = 0 then (if negative x then ''-0.0'' else ''0.0'')
      else
        let (n, d) = scaled (mantissa x) (exponent x);
            (c, j) = shortest_digits 17 1 x (decimal_point 400 n d);
            decpt = j + int (length (digits10 c));
            ds = strip_zeros (digits10 c);
            body =
              (if decpt \<le> - 4 \<or> 16 < decpt then
                 [hd ds] @ (if tl ds = [] then '''' else ''.'' @ tl ds)
                 @ ''e'' @ (if decpt - 1 < 0 then ''-'' else ''+'')
                 @ (let ex = digits10 \<bar>decpt - 1\<bar>
                    in replicate (2 - length ex) (CHR ''0'') @ ex)
               else if decpt \<le> 0 then ''0.'' @ replicate (nat (- decpt)) (CHR ''0'') @ ds
               else if int (length ds) \<le> decpt
                 then ds @ replicate (nat decpt - length ds) (CHR ''0'') @ ''.0''
               else take (nat decpt) ds @ ''.'' @ drop (nat decpt) ds)
        in (if negative x then ''-'' else '''') @ body)"

section \<open>The pieces of a formatted message\<close>

text \<open>
  An f-string is the list of its pieces, evaluated from left to right; the first piece
  that raises ends the evaluation. Characters outside ASCII (the pictographs that open
  most messages, an arrow and the euro sign) are left out of the message texts,
  together with the blank that follows a pictograph.
\<close>

type_synonym result = "(string \<times> pyval) list"

definition quoted :: "string \<Rightarrow> string" where
  \<comment> \<open>\<open>repr(s)\<close> of a string without quotes or escapes\<close>
  "quoted s = CHR 0x27 # s @ [CHR 0x27]"

definition attr :: "result \<Rightarrow> string \<Rightarrow> exn + pyval" where
  \<comment> \<open>\<open>r.name\<close> on the value a query returned; the message of the AttributeError is
      given without the class name that opens it\<close>
  "attr r name =
     (case map_of r name of
        None \<Rightarrow> Inl (Exn AttributeError (''object has no attribute '' @ quoted name))
      | Some v \<Rightarrow> Inr v)"

definition lit :: "string \<Rightarrow> exn + string" where
  \<comment> \<open>literal text\<close>
  "lit s = Inr s"

definition fmt :: "exn + pyval \<Rightarrow> exn + string" where
  \<comment> \<open>\<open>{v}\<close>\<close>
  "fmt v = (case v of Inl e \<Rightarrow> Inl e | Inr (PyInt n) \<Rightarrow> Inr (str_int n)
            | Inr (PyStr s) \<Rightarrow> Inr s | Inr PyNone \<Rightarrow> Inr ''None'')"

definition fmt_comma :: "exn + pyval \<Rightarrow> exn + string" where
  \<comment> \<open>\<open>{v:,}\<close>\<close>
  "fmt_comma v =
     (case v of Inl e \<Rightarrow> Inl e
      | Inr (PyInt n) \<Rightarrow> Inr (comma_int n)
      | Inr (PyStr s) \<Rightarrow> Inl (Exn ValueError ''Cannot specify ',' with 's'.'')
      | Inr PyNone \<Rightarrow> Inl (Exn TypeError ''unsupported format string passed to NoneType.__format__''))"

definition fmt_hex :: "exn + pyval \<Rightarrow> exn + string" where
  \<comment> \<open>\<open>{hex(v)}\<close>\<close>
  "fmt_hex v =
     (case v of Inl e \<Rightarrow> Inl e
      | Inr (PyInt n) \<Rightarrow> Inr (hex_int n)
      | Inr (PyStr s) \<Rightarrow> Inl (Exn TypeError (CHR 0x27 # ''str' object cannot be interpreted as an integer''))
      | Inr PyNone \<Rightarrow>
          Inl (Exn TypeError (CHR 0x27 # ''NoneType' object cannot be interpreted as an integer'')))"

definition over :: "exn + pyval \<Rightarrow> int \<Rightarrow> exn + pyfloat" where
  \<comment> \<open>\<open>v / scale\<close>\<close>
  "over v scale =
     (case v of Inl e \<Rightarrow> Inl e
      | Inr (PyInt n) \<Rightarrow> truediv n scale
      | Inr (PyStr s) \<Rightarrow>
          Inl (Exn TypeError (''unsupported operand type(s) for /: 'str' and 'int'' @ [CHR 0x27]))
      | Inr PyNone \<Rightarrow>
          Inl (Exn TypeError (''unsupported operand type(s) for /: 'NoneType' and 'int'' @ [CHR 0x27])))"

definition fmt_float :: "exn + pyfloat \<Rightarrow> exn + string" where
  \<comment> \<open>\<open>{x}\<close> for a float\<close>
  "fmt_float x = (case x of Inl e \<Rightarrow> Inl e | Inr f \<Rightarrow> Inr (repr_float f))"

definition fmt_fixed :: "nat \<Rightarrow> exn + pyfloat \<Rightarrow> exn + string" where
  \<comment> \<open>\<open>{x:,.pf}\<close> for a float\<close>
  "fmt_fixed p x = (case x of Inl e \<Rightarrow> Inl e | Inr f \<Rightarrow> Inr (format_fixed p f))"

fun pieces :: "(exn + string) list \<Rightarrow> exn + string" where
  "pieces [] = Inr []"
| "pieces (Inl e # ps) = Inl e"
| "pieces (Inr s # ps) = (case pieces ps of Inl e \<Rightarrow> Inl e | Inr t \<Rightarrow> Inr (s @ t))"

section \<open>The client library and the outside world\<close>

text \<open>
  The network client, the signing account and the contract handles belong to the client
  library; the blockchain stands behind them. The model keeps what the scripts pass to
  the library and what comes back. A run is observed through its events: what was
  printed, what was written, and every remote operation with its outcome.
\<close>

datatype chain_id = TESTNET | MAINNET

record account =
  address :: "string option"
  node_url :: string
  key_pair :: int
  chain :: chain_id

datatype contract = Contract (bound_address: pyval)

record deploy_result =
  hash :: int
  block_number :: "int option"
  deployed_address :: int

datatype event =
    Print string
  | WriteFile string json
  | FromAddress pyval string "exn + contract"
  | Deploy account "int option" json "pyval list" nat "exn + deploy_result"
  | Call contract string "pyval list" "exn + result"
  | Invoke contract string "pyval list" int "exn + int"
  | Wait int "exn + unit"

datatype 'a stored = Absent | Unreadable exn | Holds 'a

text \<open>
  The world is everything a run depends on: the environment variables, the three files,
  and the behaviour of the client library. A remote operation answers with a value or
  raises; its answer may depend on all that happened before, so each one reads the events
  so far. \<open>key_pair_of\<close> is \<open>KeyPair.from_private_key(int(private_key, 16))\<close>, which
  raises on a text that is no base-16 numeral; \<open>account_init\<close> is the check that
  \<open>Account(address=...)\<close> makes on its address; \<open>result_text\<close> is the text of a whole
  query result.
\<close>

record world =
  getenv :: "string \<Rightarrow> string option"
  contract_class_file :: "(string \<rightharpoonup> json) stored"
  deployment_addresses_file :: "(string \<rightharpoonup> (string \<rightharpoonup> pyval)) stored"
  token_deployment_file :: "exn option"
  key_pair_of :: "string \<Rightarrow> exn + int"
  account_init :: "string option \<Rightarrow> exn option"
  result_text :: "result \<Rightarrow> string"
  from_address_reply :: "event list \<Rightarrow> pyval \<Rightarrow> string \<Rightarrow> exn option"
  deploy_reply :: "event list \<Rightarrow> account \<Rightarrow> json \<Rightarrow> pyval list \<Rightarrow> exn + deploy_result"
  call_reply :: "event list \<Rightarrow> contract \<Rightarrow> string \<Rightarrow> pyval list \<Rightarrow> exn + result"
  invoke_reply :: "event list \<Rightarrow> contract \<Rightarrow> string \<Rightarrow> pyval list \<Rightarrow> int \<Rightarrow> exn + int"
  acceptance_reply :: "event list \<Rightarrow> int \<Rightarrow> exn option"

section \<open>Programs\<close>

text \<open>
  A program takes the events so far and returns them extended, with a value or the
  exception it raised. \<open>bindP\<close> is sequencing of statements (each \<open>await\<close> is resolved
  before the next statement runs), \<open>tryP\<close> is \<open>try: ... except Exception as e: ...\<close>.
\<close>

type_synonym 'a prog = "event list \<Rightarrow> (exn + 'a) \<times> event list"

definition returnP :: "'a \<Rightarrow> 'a prog" where
  "returnP x = (\<lambda>tr. (Inr x, tr))"

definition raiseP :: "exn \<Rightarrow> 'a prog" where
  "raiseP e = (\<lambda>tr. (Inl e, tr))"

definition lift :: "exn + 'a \<Rightarrow> 'a prog" where
  \<comment> \<open>an expression that does no input or output\<close>
  "lift r = (\<lambda>tr. (r, tr))"

definition bindP :: "'a prog \<Rightarrow> ('a \<Rightarrow> 'b prog) \<Rightarrow> 'b prog" where
  "bindP m f = (\<lambda>tr. case m tr of (Inl e, tr') \<Rightarrow> (Inl e, tr') | (Inr x, tr') \<Rightarrow> f x tr')"

definition tryP :: "'a prog \<Rightarrow> (exn \<Rightarrow> 'a prog) \<Rightarrow> 'a prog" where
  "tryP m h = (\<lambda>tr. case m tr of (Inl e, tr') \<Rightarrow> h e tr' | (Inr x, tr') \<Rightarrow> (Inr x, tr'))"

definition emit :: "event \<Rightarrow> unit prog" where
  "emit ev = (\<lambda>tr. (Inr (), tr @ [ev]))"

definition fprint :: "(exn + string) list \<Rightarrow> unit prog" where
  \<comment> \<open>\<open>print(f"...")\<close>\<close>
  "fprint ps = (case pieces ps of Inl e \<Rightarrow> raiseP e | Inr s \<Rightarrow> emit (Print s))"

definition subscript :: "(string \<rightharpoonup> 'a) \<Rightarrow> string \<Rightarrow> exn + 'a" where
  \<comment> \<open>\<open>d[key]\<close> on a dict\<close>
  "subscript d key =
     (case d key of None \<Rightarrow> Inl (Exn KeyError (quoted key)) | Some v \<Rightarrow> Inr v)"

definition open_json :: "'a stored \<Rightarrow> string \<Rightarrow> exn + 'a" where
  \<comment> \<open>\<open>with open(path, 'r') as f: json.load(f)\<close>\<close>
  "open_json f path =
     (case f of Absent \<Rightarrow> Inl (Exn FileNotFoundError path) | Unreadable e \<Rightarrow> Inl e
      | Holds x \<Rightarrow> Inr x)"

definition path_exists :: "'a stored \<Rightarrow> bool" where
  \<comment> \<open>\<open>os.path.exists(path)\<close>\<close>
  "path_exists f = (case f of Absent \<Rightarrow> False | _ \<Rightarrow> True)"

definition dump_json :: "world \<Rightarrow> string \<Rightarrow> json \<Rightarrow> unit prog" where
  \<comment> \<open>\<open>with open(path, 'w') as f: json.dump(obj, f, indent=2)\<close>\<close>
  "dump_json w path obj =
     (case token_deployment_file w of Some e \<Rightarrow> raiseP e | None \<Rightarrow> emit (WriteFile path obj))"

definition from_address :: "world \<Rightarrow> pyval \<Rightarrow> string \<Rightarrow> contract prog" where
  \<comment> \<open>\<open>await Contract.from_address(address, client)\<close>\<close>
  "from_address w a url =
     (\<lambda>tr. let r = (case from_address_reply w tr a url of Some e \<Rightarrow> Inl e
                     | None \<Rightarrow> Inr (Contract a))
           in (r, tr @ [FromAddress a url r]))"

definition deploy_contract ::
  "world \<Rightarrow> account \<Rightarrow> int option \<Rightarrow> json \<Rightarrow> pyval list \<Rightarrow> nat \<Rightarrow> deploy_result prog" where
  \<comment> \<open>\<open>await Contract.deploy_contract(account, class_hash, abi, constructor_args, cairo_version)\<close>\<close>
  "deploy_contract w acct class_hash abi constructor_args cairo_version =
     (\<lambda>tr. let r = deploy_reply w tr acct abi constructor_args
           in (r, tr @ [Deploy acct class_hash abi constructor_args cairo_version r]))"

definition call :: "world \<Rightarrow> contract \<Rightarrow> string \<Rightarrow> pyval list \<Rightarrow> result prog" where
  \<comment> \<open>\<open>await c.functions[f].call(*args)\<close>\<close>
  "call w c f args =
     (\<lambda>tr. let r = call_reply w tr c f args in (r, tr @ [Call c f args r]))"

definition invoke_v1 :: "world \<Rightarrow> contract \<Rightarrow> string \<Rightarrow> pyval list \<Rightarrow> int \<Rightarrow> int prog" where
  \<comment> \<open>\<open>await c.functions[f].invoke_v1(*args, max_fee=fee)\<close>; the value is the handle of
      the submitted transaction\<close>
  "invoke_v1 w c f args fee =
     (\<lambda>tr. let r = invoke_reply w tr c f args fee in (r, tr @ [Invoke c f args fee r]))"

definition wait_for_acceptance :: "world \<Rightarrow> int \<Rightarrow> unit prog" where
  \<comment> \<open>\<open>await tx.wait_for_acceptance()\<close>\<close>
  "wait_for_acceptance w tx =
     (\<lambda>tr. let r = (case acceptance_reply w tr tx of Some e \<Rightarrow> Inl e | None \<Rightarrow> Inr ())
           in (r, tr @ [Wait tx r]))"

definition unset :: "string option \<Rightarrow> bool" where
  \<comment> \<open>\<open>not os.getenv(name)\<close>: absent or empty\<close>
  "unset v = (v = None \<or> v = Some [])"

definition max_fee :: int where
  \<comment> \<open>\<open>int(1e17)\<close>\<close>
  "max_fee = 100000000000000000"

definition getenv_or :: "world \<Rightarrow> string \<Rightarrow> string \<Rightarrow> string" where
  \<comment> \<open>\<open>os.getenv(name, default)\<close>\<close>
  "getenv_or w name d = (case getenv w name of None \<Rightarrow> d | Some v \<Rightarrow> v)"

definition Account ::
  "world \<Rightarrow> string option \<Rightarrow> string \<Rightarrow> int \<Rightarrow> chain_id \<Rightarrow> exn + account" where
  \<comment> \<open>\<open>Account(address=a, client=FullNodeClient(node_url=url), key_pair=k, chain=c)\<close>\<close>
  "Account w a url k c =
     (case account_init w a of Some e \<Rightarrow> Inl e
      | None \<Rightarrow> Inr \<lparr>address = a, node_url = url, key_pair = k, chain = c\<rparr>)"

fun json_object :: "(string \<times> (exn + json)) list \<Rightarrow> exn + json" where
  \<comment> \<open>a dict display whose values are evaluated in order\<close>
  "json_object [] = Inr (JObj [])"
| "json_object ((k, Inl e) # fs) = Inl e"
| "json_object ((k, Inr v) # fs) =
     (case json_object fs of Inr (JObj rest) \<Rightarrow> Inr (JObj ((k, v) # rest)) | r \<Rightarrow> r)"

definition json_of :: "exn + pyval \<Rightarrow> exn + json" where
  "json_of v = (case v of Inl e \<Rightarrow> Inl e | Inr (PyInt n) \<Rightarrow> Inr (JInt n)
                | Inr (PyStr s) \<Rightarrow> Inr (JStr s) | Inr PyNone \<Rightarrow> Inr JNull)"

definition json_str :: "exn + string \<Rightarrow> exn + json" where
  "json_str v = (case v of Inl e \<Rightarrow> Inl e | Inr s \<Rightarrow> Inr (JStr s))"

section \<open>deploy\_token.py\<close>

definition NETWORK_URL :: "string \<rightharpoonup> string" where
  "NETWORK_URL = [''testnet'' \<mapsto> ''https://alpha4.starknet.io'',
                  ''mainnet'' \<mapsto> ''https://alpha-mainnet.starknet.io'']"

definition deploy_token_session :: "world \<Rightarrow> (string \<times> string \<times> account) prog" where
  \<comment> \<open>lines 25 to 46 of \<open>deploy_token\<close>: configuration, client and account\<close>
  "deploy_token_session w =
     (let network = getenv_or w ''NETWORK'' ''testnet'';
          account_address = getenv w ''ACCOUNT_ADDRESS'';
          private_key = getenv w ''PRIVATE_KEY''
      in case (account_address, private_key) of
           (Some a, Some k) \<Rightarrow>
             if a = [] \<or> k = []
             then raiseP (Exn ValueError ''ACCOUNT_ADDRESS and PRIVATE_KEY must be set in environment'')
             else
               bindP (fprint [lit ''Deploying Hancoin Token to '', lit network, lit ''...'']) (\<lambda>_.
               bindP (fprint [lit ''Account: '', lit a]) (\<lambda>_.
               bindP (lift (subscript NETWORK_URL network)) (\<lambda>url.
               bindP (lift (key_pair_of w k)) (\<lambda>key_pair.
               bindP (lift (Account w (Some a) url key_pair
                              (if network = ''testnet'' then TESTNET else MAINNET))) (\<lambda>account.
               returnP (network, a, account))))))
         | _ \<Rightarrow> raiseP (Exn ValueError ''ACCOUNT_ADDRESS and PRIVATE_KEY must be set in environment''))"

definition deploy_token_body ::
  "world \<Rightarrow> string \<Rightarrow> string \<Rightarrow> account \<Rightarrow> (int \<times> contract) option prog" where
  \<comment> \<open>lines 48 to 132 of \<open>deploy_token\<close>; the value is \<open>None\<close> on the bare \<open>return\<close>\<close>
  "deploy_token_body w network account_address account =
     (case open_json (contract_class_file w)
             ''target/dev/homebase_starknet_HancoinToken.contract_class.json'' of
        Inl e \<Rightarrow>
          if exn_class e = FileNotFoundError
          then bindP (fprint [lit ''Contract class file not found. Please run 'scarb build' first.''])
                 (\<lambda>_. returnP None)
          else raiseP e
      | Inr contract_class \<Rightarrow>
          bindP (fprint [lit ''Deploying contract...'']) (\<lambda>_.
          bindP (lift (subscript contract_class ''abi'')) (\<lambda>abi.
          bindP (deploy_contract w account None abi [PyStr account_address] 1) (\<lambda>deploy_result.
          bindP (fprint [lit ''Waiting for deployment confirmation...'']) (\<lambda>_.
          bindP (wait_for_acceptance w (hash deploy_result)) (\<lambda>_.
          let contract_address = deployed_address deploy_result in
          bindP (fprint [lit ''Hancoin Token deployed successfully!'']) (\<lambda>_.
          bindP (fprint [lit ''Contract address: '', lit (hex_int contract_address)]) (\<lambda>_.
          bindP (fprint [lit ''\<newline>Verifying deployment...'']) (\<lambda>_.
          let contract = Contract (PyInt contract_address) in
          bindP (call w contract ''name'' []) (\<lambda>name.
          bindP (call w contract ''symbol'' []) (\<lambda>symbol.
          bindP (call w contract ''decimals'' []) (\<lambda>decimals.
          bindP (call w contract ''total_supply'' []) (\<lambda>total_supply.
          bindP (call w contract ''balance_of'' [PyStr account_address]) (\<lambda>owner_balance.
          bindP (fprint [lit ''Token Name: '', fmt (attr name ''name'')]) (\<lambda>_.
          bindP (fprint [lit ''Token Symbol: '', fmt (attr symbol ''symbol'')]) (\<lambda>_.
          bindP (fprint [lit ''Decimals: '', fmt (attr decimals ''decimals'')]) (\<lambda>_.
          bindP (fprint [lit ''Total Supply: '',
                         fmt_fixed 0 (over (attr total_supply ''total_supply'') (10 ^ 18)),
                         lit '' HNXZ'']) (\<lambda>_.
          bindP (fprint [lit ''Owner Balance: '',
                         fmt_fixed 0 (over (attr owner_balance ''balance'') (10 ^ 18)),
                         lit '' HNXZ'']) (\<lambda>_.
          bindP (call w contract ''is_paymaster_enabled'' []) (\<lambda>paymaster_enabled.
          bindP (call w contract ''get_gas_fee_rate'' []) (\<lambda>gas_fee_rate.
          bindP (fprint [lit ''Paymaster Enabled: '', fmt (attr paymaster_enabled ''result'')]) (\<lambda>_.
          bindP (fprint [lit ''Gas Fee Rate: '', fmt (attr gas_fee_rate ''result''),
                         lit '' wei per gas unit'']) (\<lambda>_.
          bindP (lift (json_object
                   [(''network'', Inr (JStr network)),
                    (''contract_address'', Inr (JStr (hex_int contract_address))),
                    (''deployer'', Inr (JStr account_address)),
                    (''transaction_hash'', Inr (JStr (hex_int (hash deploy_result)))),
                    (''block_number'',
                       Inr (case block_number deploy_result of None \<Rightarrow> JNull | Some n \<Rightarrow> JInt n)),
                    (''token_info'', json_object
                       [(''name'', json_of (attr name ''name'')),
                        (''symbol'', json_of (attr symbol ''symbol'')),
                        (''decimals'', json_of (attr decimals ''decimals'')),
                        (''total_supply'', json_str (fmt (attr total_supply ''total_supply''))),
                        (''formatted_supply'',
                           json_str (fmt_fixed 0 (over (attr total_supply ''total_supply'') (10 ^ 18))))])]))
            (\<lambda>deployment_info.
          bindP (dump_json w ''token_deployment.json'' deployment_info) (\<lambda>_.
          bindP (fprint [lit ''\<newline>Deployment info saved to token_deployment.json'']) (\<lambda>_.
          bindP (fprint [lit ''\<newline>Example interactions:'']) (\<lambda>_.
          bindP (fprint [lit ''# Check balance:'']) (\<lambda>_.
          bindP (fprint [lit ''starkli call '', lit (hex_int contract_address),
                         lit '' balance_of <address>'']) (\<lambda>_.
          bindP (fprint [lit ''\<newline># Transfer tokens:'']) (\<lambda>_.
          bindP (fprint [lit ''starkli invoke '', lit (hex_int contract_address),
                         lit '' transfer <to_address> <amount>'']) (\<lambda>_.
          bindP (fprint [lit ''\<newline># Mint tokens (owner only):'']) (\<lambda>_.
          bindP (fprint [lit ''starkli invoke '', lit (hex_int contract_address),
                         lit '' mint <to_address> <amount>'']) (\<lambda>_.
          bindP (fprint [lit ''\<newline># Set paymaster:'']) (\<lambda>_.
          bindP (fprint [lit ''starkli invoke '', lit (hex_int contract_address),
                         lit '' set_paymaster <paymaster_address> 1'']) (\<lambda>_.
          returnP (Some (contract_address, contract)))))))))))))))))))))))))))))))))))))"

definition deploy_token :: "world \<Rightarrow> (int \<times> contract) option prog" where
  "deploy_token w =
     bindP (deploy_token_session w) (\<lambda>(network, account_address, account).
       deploy_token_body w network account_address account)"

definition test_token_functions :: "world \<Rightarrow> int \<Rightarrow> account \<Rightarrow> unit prog" where
  "test_token_functions w contract_address account =
     bindP (fprint [lit ''\<newline>Testing token functions...'']) (\<lambda>_.
     bindP (from_address w (PyInt contract_address) (node_url account)) (\<lambda>contract.
     let test_recipient = ''0x1234567890123456789012345678901234567890123456789012345678901234'';
         mint_amount = 1000 * 10 ^ 18 in
     bindP (fprint [lit ''Minting '', fmt_float (over (Inr (PyInt mint_amount)) (10 ^ 18)),
                    lit '' HNXZ to test recipient...'']) (\<lambda>_.
     bindP (invoke_v1 w contract ''mint'' [PyStr test_recipient, PyInt mint_amount] max_fee) (\<lambda>mint_call.
     bindP (wait_for_acceptance w mint_call) (\<lambda>_.
     bindP (fprint [lit ''Mint transaction confirmed'']) (\<lambda>_.
     bindP (call w contract ''balance_of'' [PyStr test_recipient]) (\<lambda>recipient_balance.
     bindP (fprint [lit ''Test recipient balance: '',
                    fmt_float (over (attr recipient_balance ''balance'') (10 ^ 18)),
                    lit '' HNXZ'']) (\<lambda>_.
     let new_gas_rate = 2000000000000000 in
     bindP (fprint [lit ''Setting new gas fee rate: '', lit (str_int new_gas_rate)]) (\<lambda>_.
     bindP (invoke_v1 w contract ''set_gas_fee_rate'' [PyInt new_gas_rate] max_fee) (\<lambda>gas_rate_call.
     bindP (wait_for_acceptance w gas_rate_call) (\<lambda>_.
     bindP (fprint [lit ''Gas fee rate updated'']) (\<lambda>_.
     bindP (call w contract ''get_gas_fee_rate'' []) (\<lambda>updated_rate.
     fprint [lit ''New gas fee rate: '', fmt (attr updated_rate ''result'')])))))))))))))"

section \<open>interaction\_examples.py\<close>

record homebase =
  network :: string
  account_address :: "string option"
  private_key :: "string option"
  addresses :: "string \<rightharpoonup> (string \<rightharpoonup> pyval)"
  client :: string
  account :: account

text \<open>
  \<open>setup_contracts\<close> stores the five handles on \<open>self\<close>; the model returns them in a
  record that the groups take.
\<close>

record contracts =
  token_contract :: contract
  loan_contract :: contract
  escrow_contract :: contract
  swap_contract :: contract
  credit_card_contract :: contract

definition opt_str :: "string option \<Rightarrow> pyval" where
  "opt_str v = (case v of None \<Rightarrow> PyNone | Some s \<Rightarrow> PyStr s)"

definition HomebaseInteraction :: "world \<Rightarrow> exn + homebase" where
  \<comment> \<open>\<open>HomebaseInteraction.__init__\<close>\<close>
  "HomebaseInteraction w =
     (let net = getenv_or w ''NETWORK'' ''testnet'';
          acc = getenv w ''ACCOUNT_ADDRESS'';
          key = getenv w ''PRIVATE_KEY''
      in case open_json (deployment_addresses_file w) ''deployment_addresses.json'' of
           Inl e \<Rightarrow> Inl e
         | Inr book \<Rightarrow>
             let url = (if net = ''testnet'' then ''https://alpha4.starknet.io''
                        else ''https://alpha-mainnet.starknet.io'')
             in (case (case key of
                         None \<Rightarrow> Inl (Exn TypeError ''int() can't convert non-string with explicit base'')
                       | Some k \<Rightarrow> key_pair_of w k) of
                   Inl e \<Rightarrow> Inl e
                 | Inr kp \<Rightarrow>
                     (case Account w acc url kp (if net = ''testnet'' then TESTNET else MAINNET) of
                        Inl e \<Rightarrow> Inl e
                      | Inr a \<Rightarrow>
                          Inr \<lparr>network = net, account_address = acc, private_key = key,
                               addresses = book, client = url, account = a\<rparr>)))"

definition book_entry :: "(string \<rightharpoonup> (string \<rightharpoonup> pyval)) \<Rightarrow> string \<Rightarrow> exn + pyval" where
  \<comment> \<open>\<open>self.addresses['contracts'][name]\<close>\<close>
  "book_entry book name =
     (case subscript book ''contracts'' of Inl e \<Rightarrow> Inl e | Inr cs \<Rightarrow> subscript cs name)"

definition setup_contracts :: "world \<Rightarrow> homebase \<Rightarrow> contracts prog" where
  "setup_contracts w self =
     bindP (lift (book_entry (addresses self) ''hancoin_token'')) (\<lambda>a1.
     bindP (from_address w a1 (client self)) (\<lambda>c1.
     bindP (lift (book_entry (addresses self) ''loan_contract'')) (\<lambda>a2.
     bindP (from_address w a2 (client self)) (\<lambda>c2.
     bindP (lift (book_entry (addresses self) ''escrow_contract'')) (\<lambda>a3.
     bindP (from_address w a3 (client self)) (\<lambda>c3.
     bindP (lift (book_entry (addresses self) ''swap_contract'')) (\<lambda>a4.
     bindP (from_address w a4 (client self)) (\<lambda>c4.
     bindP (lift (book_entry (addresses self) ''credit_card_simulator'')) (\<lambda>a5.
     bindP (from_address w a5 (client self)) (\<lambda>c5.
     bindP (fprint [lit ''All contracts loaded successfully'']) (\<lambda>_.
     returnP \<lparr>token_contract = c1, loan_contract = c2, escrow_contract = c3,
              swap_contract = c4, credit_card_contract = c5\<rparr>)))))))))))"

definition token_interactions :: "world \<Rightarrow> homebase \<Rightarrow> contracts \<Rightarrow> unit prog" where
  "token_interactions w self cs =
     bindP (fprint [lit ''\<newline>=== TOKEN CONTRACT INTERACTIONS ==='']) (\<lambda>_.
     bindP (call w (token_contract cs) ''name'' []) (\<lambda>name.
     bindP (call w (token_contract cs) ''symbol'' []) (\<lambda>symbol.
     bindP (call w (token_contract cs) ''total_supply'' []) (\<lambda>total_supply.
     bindP (call w (token_contract cs) ''total_supply_formatted'' []) (\<lambda>formatted_supply.
     bindP (fprint [lit ''Token: '', fmt (attr name ''name''), lit '' ('',
                    fmt (attr symbol ''symbol''), lit '')'']) (\<lambda>_.
     bindP (fprint [lit ''Total Supply: '', fmt_comma (attr formatted_supply ''result''),
                    lit '' HNXZ'']) (\<lambda>_.
     bindP (call w (token_contract cs) ''balance_of'' [opt_str (account_address self)]) (\<lambda>owner_balance.
     bindP (fprint [lit ''Owner Balance: '',
                    fmt_fixed 2 (over (attr owner_balance ''balance'') (10 ^ 18)),
                    lit '' HNXZ'']) (\<lambda>_.
     bindP (call w (token_contract cs) ''is_paymaster_enabled'' []) (\<lambda>paymaster_enabled.
     bindP (call w (token_contract cs) ''get_gas_fee_rate'' []) (\<lambda>gas_fee_rate.
     bindP (fprint [lit ''Paymaster Enabled: '', fmt (attr paymaster_enabled ''result'')]) (\<lambda>_.
     bindP (fprint [lit ''Gas Fee Rate: '', fmt (attr gas_fee_rate ''result''),
                    lit '' wei per gas unit'']) (\<lambda>_.
     let test_recipient = ''0x1234567890123456789012345678901234567890123456789012345678901234'';
         transfer_amount = 1000 * 10 ^ 18 in
     bindP (fprint [lit ''\<newline>Transferring '',
                    fmt_float (over (Inr (PyInt transfer_amount)) (10 ^ 18)),
                    lit '' HNXZ to test address...'']) (\<lambda>_.
     bindP (invoke_v1 w (token_contract cs) ''transfer''
              [PyStr test_recipient, PyInt transfer_amount] max_fee) (\<lambda>transfer_call.
     bindP (wait_for_acceptance w transfer_call) (\<lambda>_.
     bindP (fprint [lit ''Transfer completed'']) (\<lambda>_.
     bindP (call w (token_contract cs) ''balance_of'' [PyStr test_recipient]) (\<lambda>recipient_balance.
     fprint [lit ''Recipient Balance: '',
             fmt_float (over (attr recipient_balance ''balance'') (10 ^ 18)),
             lit '' HNXZ'']))))))))))))))))))"

definition loan_interactions :: "world \<Rightarrow> homebase \<Rightarrow> contracts \<Rightarrow> unit prog" where
  "loan_interactions w self cs =
     bindP (fprint [lit ''\<newline>=== LOAN CONTRACT INTERACTIONS ==='']) (\<lambda>_.
     bindP (call w (loan_contract cs) ''get_total_loans_issued'' []) (\<lambda>total_issued.
     bindP (call w (loan_contract cs) ''get_total_amount_repaid'' []) (\<lambda>total_repaid.
     bindP (call w (loan_contract cs) ''get_collateral_ratio'' []) (\<lambda>collateral_ratio.
     bindP (fprint [lit ''Total Loans Issued: '',
                    fmt_fixed 2 (over (attr total_issued ''result'') (10 ^ 18)),
                    lit '' HNXZ'']) (\<lambda>_.
     bindP (fprint [lit ''Total Amount Repaid: '',
                    fmt_fixed 2 (over (attr total_repaid ''result'') (10 ^ 18)),
                    lit '' HNXZ'']) (\<lambda>_.
     bindP (fprint [lit ''Required Collateral Ratio: '',
                    fmt_float (over (attr collateral_ratio ''result'') 100), lit ''%'']) (\<lambda>_.
     let loan_amount = 5000 * 10 ^ 18;
         duration = 86400 * 90;
         collateral_amount = 7500 * 10 ^ 18 in
     bindP (fprint [lit ''\<newline>Requesting loan: '',
                    fmt_float (over (Inr (PyInt loan_amount)) (10 ^ 18)),
                    lit '' HNXZ for '', lit (str_int (duration div 86400)), lit '' days'']) (\<lambda>_.
     bindP (fprint [lit ''Collateral: '',
                    fmt_float (over (Inr (PyInt collateral_amount)) (10 ^ 18)),
                    lit '' HNXZ'']) (\<lambda>_.
     bindP (invoke_v1 w (loan_contract cs) ''request_loan''
              [PyInt loan_amount, PyInt duration, PyInt collateral_amount] max_fee) (\<lambda>loan_request.
     bindP (wait_for_acceptance w loan_request) (\<lambda>_.
     bindP (fprint [lit ''Loan requested successfully'']) (\<lambda>_.
     tryP
       (bindP (call w (loan_contract cs) ''get_loan'' [PyInt 1]) (\<lambda>loan_details.
        bindP (fprint [lit ''\<newline>Loan Details (ID: 1):'']) (\<lambda>_.
        bindP (fprint [lit ''Borrower: '', fmt_hex (attr loan_details ''borrower'')]) (\<lambda>_.
        bindP (fprint [lit ''Amount: '',
                       fmt_float (over (attr loan_details ''loan_amount'') (10 ^ 18)),
                       lit '' HNXZ'']) (\<lambda>_.
        bindP (fprint [lit ''Collateral: '',
                       fmt_float (over (attr loan_details ''collateral_amount'') (10 ^ 18)),
                       lit '' HNXZ'']) (\<lambda>_.
        bindP (fprint [lit ''Status: '', fmt (attr loan_details ''status'')]) (\<lambda>_.
        bindP (call w (loan_contract cs) ''calculate_total_due'' [PyInt 1]) (\<lambda>total_due.
        fprint [lit ''Total Due: '', fmt_float (over (attr total_due ''result'') (10 ^ 18)),
                lit '' HNXZ'']))))))))
       (\<lambda>e. fprint [lit ''No existing loans found: '', lit (message e)])))))))))))))"

definition int_from_bytes_big :: "string \<Rightarrow> int" where
  \<comment> \<open>\<open>int.from_bytes(b, 'big')\<close>\<close>
  "int_from_bytes_big b = foldl (\<lambda>n c. n * 256 + int (of_char c)) 0 b"

definition escrow_interactions :: "world \<Rightarrow> homebase \<Rightarrow> contracts \<Rightarrow> unit prog" where
  "escrow_interactions w self cs =
     bindP (fprint [lit ''\<newline>=== ESCROW CONTRACT INTERACTIONS ==='']) (\<lambda>_.
     bindP (call w (escrow_contract cs) ''get_total_escrowed'' []) (\<lambda>total_escrowed.
     bindP (call w (escrow_contract cs) ''get_total_fees_collected'' []) (\<lambda>total_fees.
     bindP (call w (escrow_contract cs) ''get_escrow_fee_rate'' []) (\<lambda>fee_rate.
     bindP (fprint [lit ''Total Escrowed: '',
                    fmt_fixed 2 (over (attr total_escrowed ''result'') (10 ^ 18)),
                    lit '' HNXZ'']) (\<lambda>_.
     bindP (fprint [lit ''Total Fees Collected: '',
                    fmt_fixed 2 (over (attr total_fees ''result'') (10 ^ 18)),
                    lit '' HNXZ'']) (\<lambda>_.
     bindP (fprint [lit ''Escrow Fee Rate: '',
                    fmt_float (over (attr fee_rate ''result'') 100), lit ''%'']) (\<lambda>_.
     let seller_address = ''0x5678901234567890123456789012345678901234567890123456789012345678'';
         escrow_amount = 25000 * 10 ^ 18;
         property_id = int_from_bytes_big ''PROP001'';
         timeout_duration = 86400 * 30 in
     bindP (fprint [lit ''\<newline>Creating escrow order:'']) (\<lambda>_.
     bindP (fprint [lit ''Seller: '', lit seller_address]) (\<lambda>_.
     bindP (fprint [lit ''Amount: '',
                    fmt_float (over (Inr (PyInt escrow_amount)) (10 ^ 18)), lit '' HNXZ'']) (\<lambda>_.
     bindP (fprint [lit ''Property ID: PROP001'']) (\<lambda>_.
     bindP (fprint [lit ''Timeout: '', lit (str_int (timeout_duration div 86400)),
                    lit '' days'']) (\<lambda>_.
     bindP (invoke_v1 w (escrow_contract cs) ''create_escrow''
              [PyStr seller_address, PyInt escrow_amount, PyInt property_id,
               PyInt timeout_duration] max_fee) (\<lambda>escrow_creation.
     bindP (wait_for_acceptance w escrow_creation) (\<lambda>_.
     bindP (fprint [lit ''Escrow order created successfully'']) (\<lambda>_.
     tryP
       (bindP (call w (escrow_contract cs) ''get_escrow_status'' [PyInt 1]) (\<lambda>escrow_status.
        bindP (call w (escrow_contract cs) ''get_escrow_order'' [PyInt 1]) (\<lambda>escrow_order.
        bindP (fprint [lit ''\<newline>Escrow Order Details (ID: 1):'']) (\<lambda>_.
        bindP (fprint [lit ''Buyer: '', fmt_hex (attr escrow_order ''buyer'')]) (\<lambda>_.
        bindP (fprint [lit ''Seller: '', fmt_hex (attr escrow_order ''seller'')]) (\<lambda>_.
        bindP (fprint [lit ''Amount: '',
                       fmt_float (over (attr escrow_order ''amount'') (10 ^ 18)),
                       lit '' HNXZ'']) (\<lambda>_.
        fprint [lit ''Status: '', lit (result_text w escrow_status)])))))))
       (\<lambda>e. fprint [lit ''No existing escrow orders found: '', lit (message e)]))))))))))))))))"

definition nonzero :: "pyval \<Rightarrow> bool" where
  \<comment> \<open>\<open>v != 0\<close>\<close>
  "nonzero v = (case v of PyInt n \<Rightarrow> n \<noteq> 0 | _ \<Rightarrow> True)"

definition swap_interactions :: "world \<Rightarrow> homebase \<Rightarrow> contracts \<Rightarrow> unit prog" where
  "swap_interactions w self cs =
     bindP (fprint [lit ''\<newline>=== SWAP CONTRACT INTERACTIONS ==='']) (\<lambda>_.
     bindP (call w (swap_contract cs) ''get_total_swaps'' []) (\<lambda>total_swaps.
     bindP (call w (swap_contract cs) ''get_total_volume'' []) (\<lambda>total_volume.
     bindP (call w (swap_contract cs) ''get_swap_fee'' []) (\<lambda>swap_fee.
     bindP (fprint [lit ''Total Swaps: '', fmt (attr total_swaps ''result'')]) (\<lambda>_.
     bindP (fprint [lit ''Total Volume: '',
                    fmt_fixed 2 (over (attr total_volume ''result'') (10 ^ 18)),
                    lit '' HNXZ'']) (\<lambda>_.
     bindP (fprint [lit ''Swap Fee: '',
                    fmt_float (over (attr swap_fee ''result'') 100), lit ''%'']) (\<lambda>_.
     bindP (call w (swap_contract cs) ''get_supported_token'' [PyStr ''USDT'']) (\<lambda>usdt_address.
     bindP (call w (swap_contract cs) ''get_supported_token'' [PyStr ''USDC'']) (\<lambda>usdc_address.
     bindP (call w (swap_contract cs) ''get_supported_token'' [PyStr ''WETH'']) (\<lambda>weth_address.
     bindP (fprint [lit ''\<newline>Supported Tokens:'']) (\<lambda>_.
     bindP (fprint [lit ''USDT: '', fmt_hex (attr usdt_address ''result'')]) (\<lambda>_.
     bindP (fprint [lit ''USDC: '', fmt_hex (attr usdc_address ''result'')]) (\<lambda>_.
     bindP (fprint [lit ''WETH: '', fmt_hex (attr weth_address ''result'')]) (\<lambda>_.
     bindP (lift (book_entry (addresses self) ''hancoin_token'')) (\<lambda>token_address.
     let swap_amount = 1000 * 10 ^ 18 in
     bindP (lift (attr usdt_address ''result'')) (\<lambda>usdt.
     if nonzero usdt then
       bindP (fprint [lit ''\<newline>Getting quote for '',
                      fmt_float (over (Inr (PyInt swap_amount)) (10 ^ 18)),
                      lit '' HNXZ  USDT'']) (\<lambda>_.
       tryP
         (bindP (call w (swap_contract cs) ''get_swap_quote''
                   [token_address, usdt, PyInt swap_amount]) (\<lambda>quote.
          fprint [lit ''Quote: '', fmt_float (over (attr quote ''result'') (10 ^ 18)),
                  lit '' USDT'']))
         (\<lambda>e. fprint [lit ''Swap quote failed: '', lit (message e)]))
     else fprint [lit ''USDT not configured for swaps'']))))))))))))))))"

definition credit_card_interactions :: "world \<Rightarrow> homebase \<Rightarrow> contracts \<Rightarrow> unit prog" where
  "credit_card_interactions w self cs =
     bindP (fprint [lit ''\<newline>=== CREDIT CARD SIMULATOR INTERACTIONS ==='']) (\<lambda>_.
     bindP (call w (credit_card_contract cs) ''get_total_payments'' []) (\<lambda>total_payments.
     bindP (call w (credit_card_contract cs) ''get_total_fiat_processed'' []) (\<lambda>total_fiat.
     bindP (call w (credit_card_contract cs) ''get_total_hnxz_issued'' []) (\<lambda>total_hnxz.
     bindP (call w (credit_card_contract cs) ''get_processing_fee_rate'' []) (\<lambda>processing_fee.
     bindP (fprint [lit ''Total Payments: '', fmt (attr total_payments ''result'')]) (\<lambda>_.
     bindP (fprint [lit ''Total Fiat Processed: $'',
                    fmt_fixed 2 (over (attr total_fiat ''result'') 100)]) (\<lambda>_.
     bindP (fprint [lit ''Total HNXZ Issued: '',
                    fmt_fixed 2 (over (attr total_hnxz ''result'') (10 ^ 18))]) (\<lambda>_.
     bindP (fprint [lit ''Processing Fee: '',
                    fmt_float (over (attr processing_fee ''result'') 100), lit ''%'']) (\<lambda>_.
     bindP (call w (credit_card_contract cs) ''get_exchange_rate'' [PyStr ''USD'']) (\<lambda>usd_rate.
     bindP (call w (credit_card_contract cs) ''get_exchange_rate'' [PyStr ''EUR'']) (\<lambda>eur_rate.
     bindP (fprint [lit ''\<newline>Exchange Rates:'']) (\<lambda>_.
     bindP (fprint [lit ''USD: $'', fmt_float (over (attr usd_rate ''rate'') 100),
                    lit '' per HNXZ'']) (\<lambda>_.
     bindP (fprint [lit ''EUR: '', fmt_float (over (attr eur_rate ''rate'') 100),
                    lit '' per HNXZ'']) (\<lambda>_.
     let fiat_amount = 10000;
         currency = ''USD'' in
     bindP (call w (credit_card_contract cs) ''calculate_hnxz_amount''
              [PyInt fiat_amount, PyStr currency]) (\<lambda>hnxz_amount.
     bindP (fprint [lit ''\<newline>$'', fmt_float (over (Inr (PyInt fiat_amount)) 100),
                    lit '' USD = '', fmt_fixed 2 (over (attr hnxz_amount ''result'') (10 ^ 18)),
                    lit '' HNXZ'']) (\<lambda>_.
     let card_last_four = 1234 in
     bindP (fprint [lit ''Initiating payment: $'',
                    fmt_float (over (Inr (PyInt fiat_amount)) 100), lit '' USD'']) (\<lambda>_.
     bindP (invoke_v1 w (credit_card_contract cs) ''initiate_payment''
              [PyInt fiat_amount, PyStr currency, PyInt card_last_four] max_fee) (\<lambda>payment_initiation.
     bindP (wait_for_acceptance w payment_initiation) (\<lambda>_.
     bindP (fprint [lit ''Payment initiated successfully'']) (\<lambda>_.
     tryP
       (bindP (call w (credit_card_contract cs) ''get_payment_status'' [PyInt 1]) (\<lambda>payment_status.
        bindP (call w (credit_card_contract cs) ''get_payment'' [PyInt 1]) (\<lambda>payment_details.
        bindP (fprint [lit ''\<newline>Payment Details (ID: 1):'']) (\<lambda>_.
        bindP (fprint [lit ''User: '', fmt_hex (attr payment_details ''user'')]) (\<lambda>_.
        bindP (fprint [lit ''Fiat Amount: $'',
                       fmt_float (over (attr payment_details ''fiat_amount'') 100)]) (\<lambda>_.
        bindP (fprint [lit ''HNXZ Amount: '',
                       fmt_float (over (attr payment_details ''hnxz_amount'') (10 ^ 18))]) (\<lambda>_.
        fprint [lit ''Status: '', lit (result_text w payment_status)])))))))
       (\<lambda>e. fprint [lit ''No existing payments found: '', lit (message e)])))))))))))))))))))))"

definition run_all_examples :: "world \<Rightarrow> homebase \<Rightarrow> unit prog" where
  "run_all_examples w self =
     bindP (fprint [lit ''Starting Homebase Contract Interactions'']) (\<lambda>_.
     bindP (fprint [lit (replicate 50 (CHR ''=''))]) (\<lambda>_.
     bindP (setup_contracts w self) (\<lambda>cs.
     tryP
       (bindP (token_interactions w self cs) (\<lambda>_.
        bindP (loan_interactions w self cs) (\<lambda>_.
        bindP (escrow_interactions w self cs) (\<lambda>_.
        bindP (swap_interactions w self cs) (\<lambda>_.
        bindP (credit_card_interactions w self cs) (\<lambda>_.
        bindP (fprint [lit (''\<newline>'' @ replicate 50 (CHR ''=''))]) (\<lambda>_.
        fprint [lit ''All interactions completed successfully!''])))))))
       (\<lambda>e. bindP (fprint [lit ''Error during interactions: '', lit (message e)])
               (\<lambda>_. raiseP e)))))"

definition main :: "world \<Rightarrow> unit prog" where
  "main w =
     (if \<not> path_exists (deployment_addresses_file w) then
        bindP (fprint [lit ''deployment_addresses.json not found!'']) (\<lambda>_.
        fprint [lit ''Please deploy contracts first using: ./scripts/deploy_all.sh''])
      else if unset (getenv w ''ACCOUNT_ADDRESS'') \<or> unset (getenv w ''PRIVATE_KEY'') then
        fprint [lit ''ACCOUNT_ADDRESS and PRIVATE_KEY must be set in .env file'']
      else
        bindP (lift (HomebaseInteraction w)) (\<lambda>homebase. run_all_examples w homebase))"

section \<open>The process\<close>

definition exit_status :: "(exn + 'a) \<times> event list \<Rightarrow> nat" where
  \<comment> \<open>\<open>asyncio.run(...)\<close> at the top level: an exception that escapes ends the process
      with a traceback and status 1, a normal return with status 0\<close>
  "exit_status run = (case fst run of Inl e \<Rightarrow> 1 | Inr x \<Rightarrow> 0)"

section \<open>What a run may show\<close>

text \<open>
  The properties of the two scripts are stated on the events of a run. Each one is a
  small automaton that reads the events in order and ends in a failure state as soon as
  the run does what the property forbids.
\<close>

definition network_event :: "event \<Rightarrow> bool" where
  "network_event ev = (case ev of Print s \<Rightarrow> False | WriteFile p j \<Rightarrow> False | _ \<Rightarrow> True)"

subsection \<open>Acceptance is awaited\<close>

text \<open>
  A submitted transaction (an invocation or the deployment) is \<open>Pending\<close> until the next
  remote operation, which has to be the wait for its acceptance. After a submission or
  a wait that raised, the run is \<open>Closed\<close>: no remote operation follows.
\<close>

datatype phase = Idle | Pending int | Closed | Violated

fun awaiting :: "phase \<Rightarrow> event \<Rightarrow> phase" where
  "awaiting Violated ev = Violated"
| "awaiting ph (Print s) = ph"
| "awaiting ph (WriteFile p j) = ph"
| "awaiting Idle (Invoke c f args fee r) = (case r of Inl e \<Rightarrow> Closed | Inr tx \<Rightarrow> Pending tx)"
| "awaiting Idle (Deploy a h abi args v r) =
     (case r of Inl e \<Rightarrow> Closed | Inr d \<Rightarrow> Pending (hash d))"
| "awaiting Idle (Call c f args r) = Idle"
| "awaiting Idle (FromAddress a u r) = Idle"
| "awaiting (Pending tx) (Wait tx' r) =
     (if tx' = tx then (case r of Inl e \<Rightarrow> Closed | Inr u \<Rightarrow> Idle) else Violated)"
| "awaiting ph ev = Violated"

definition settled :: "event list \<Rightarrow> bool" where
  "settled tr = (case foldl awaiting Idle tr of Idle \<Rightarrow> True | Closed \<Rightarrow> True | _ \<Rightarrow> False)"

definition idle :: "event list \<Rightarrow> bool" where
  \<comment> \<open>no transaction is pending and none has failed\<close>
  "idle tr = (foldl awaiting Idle tr = Idle)"

subsection \<open>The orchestrator and the failures of its groups\<close>

text \<open>
  \<open>report_of f\<close> is the report that the group of the read-back \<open>f\<close> prints when the
  read-back raises, \<open>next_start\<close> is the first line printed after that group. A failed
  read-back has to be followed by its report and then by the next start; any other
  failed remote operation of a group has to be followed by the orchestrator's error
  line and by nothing else; a handle that cannot be bound ends the run at once.
\<close>

definition report_of :: "string \<Rightarrow> string option" where
  "report_of f =
     (if f = ''get_loan'' \<or> f = ''calculate_total_due'' then Some ''No existing loans found: ''
      else if f = ''get_escrow_status'' \<or> f = ''get_escrow_order''
        then Some ''No existing escrow orders found: ''
      else if f = ''get_swap_quote'' then Some ''Swap quote failed: ''
      else if f = ''get_payment_status'' \<or> f = ''get_payment''
        then Some ''No existing payments found: ''
      else None)"

definition next_start :: "string \<Rightarrow> string" where
  "next_start p =
     (if p = ''No existing loans found: '' then ''\<newline>=== ESCROW CONTRACT INTERACTIONS ===''
      else if p = ''No existing escrow orders found: ''
        then ''\<newline>=== SWAP CONTRACT INTERACTIONS ===''
      else if p = ''Swap quote failed: ''
        then ''\<newline>=== CREDIT CARD SIMULATOR INTERACTIONS ===''
      else ''\<newline>'' @ replicate 50 (CHR ''=''))"

datatype watch =
  Watching | NeedReport string exn | NeedStart string | NeedError exn | Aborted exn | Bad

fun orchestrating :: "watch \<Rightarrow> event \<Rightarrow> watch" where
  "orchestrating Bad ev = Bad"
| "orchestrating (Aborted e) ev = Bad"
| "orchestrating (NeedError e) (Print s) =
     (if s = ''Error during interactions: '' @ message e then Aborted e else Bad)"
| "orchestrating (NeedError e) ev = Bad"
| "orchestrating (NeedReport p e) (Print s) = (if s = p @ message e then NeedStart p else Bad)"
| "orchestrating (NeedReport p e) ev = Bad"
| "orchestrating (NeedStart p) (Print s) = (if s = next_start p then Watching else Bad)"
| "orchestrating (NeedStart p) ev = Bad"
| "orchestrating Watching (Call c f a (Inl e)) =
     (case report_of f of Some p \<Rightarrow> NeedReport p e | None \<Rightarrow> NeedError e)"
| "orchestrating Watching (Invoke c f a fee (Inl e)) = NeedError e"
| "orchestrating Watching (Wait tx (Inl e)) = NeedError e"
| "orchestrating Watching (FromAddress a u (Inl e)) = Aborted e"
| "orchestrating Watching (Deploy a h abi args v r) = Bad"
| "orchestrating Watching ev = Watching"

definition tolerated :: "(exn + unit) \<times> event list \<Rightarrow> bool" where
  "tolerated run =
     (case foldl orchestrating Watching (snd run) of
        Watching \<Rightarrow> True | Aborted e \<Rightarrow> fst run = Inl e | _ \<Rightarrow> False)"

subsection \<open>Amounts are passed raw\<close>

fun raw_amounts :: "event \<Rightarrow> bool" where
  "raw_amounts (Invoke c f args fee r) =
     (if f = ''transfer'' then
        args = [PyStr ''0x1234567890123456789012345678901234567890123456789012345678901234'',
                PyInt (1000 * 10 ^ 18)]
      else if f = ''request_loan'' then
        args = [PyInt (5000 * 10 ^ 18), PyInt (86400 * 90), PyInt (7500 * 10 ^ 18)]
      else if f = ''create_escrow'' then
        args = [PyStr ''0x5678901234567890123456789012345678901234567890123456789012345678'',
                PyInt (25000 * 10 ^ 18), PyInt (int_from_bytes_big ''PROP001''),
                PyInt (86400 * 30)]
      else if f = ''initiate_payment'' then args = [PyInt 10000, PyStr ''USD'', PyInt 1234]
      else True)"
| "raw_amounts (Call c f args r) =
     (if f = ''get_swap_quote'' then
        (case args of [token, usdt, amount] \<Rightarrow> amount = PyInt (1000 * 10 ^ 18) | _ \<Rightarrow> False)
      else if f = ''calculate_hnxz_amount'' then args = [PyInt 10000, PyStr ''USD'']
      else True)"
| "raw_amounts ev = True"

subsection \<open>The deployment\<close>

text \<open>
  The deployment is submitted once, with the owner as its only constructor argument;
  the next remote operation is the wait for its acceptance; the handle of the new
  contract is used only after that wait has returned, and a remote operation that raises
  is the last one.
\<close>

datatype deployment = Before | Submitted deploy_result | Accepted deploy_result | Over | Wrong

fun deploying :: "string option \<Rightarrow> deployment \<Rightarrow> event \<Rightarrow> deployment" where
  "deploying owner Wrong ev = Wrong"
| "deploying owner ph (Print s) = ph"
| "deploying owner ph (WriteFile p j) = ph"
| "deploying owner Before (Deploy acct h abi args v r) =
     (case owner of
        None \<Rightarrow> Wrong
      | Some a \<Rightarrow>
          if args = [PyStr a] \<and> address acct = Some a
          then (case r of Inl e \<Rightarrow> Over | Inr d \<Rightarrow> Submitted d) else Wrong)"
| "deploying owner (Submitted d) (Wait tx r) =
     (if tx = hash d then (case r of Inl e \<Rightarrow> Over | Inr u \<Rightarrow> Accepted d) else Wrong)"
| "deploying owner (Accepted d) (Call c f a r) =
     (if c = Contract (PyInt (deployed_address d))
      then (case r of Inl e \<Rightarrow> Over | Inr x \<Rightarrow> Accepted d) else Wrong)"
| "deploying owner ph ev = Wrong"

definition deployed_in_order :: "string option \<Rightarrow> event list \<Rightarrow> bool" where
  "deployed_in_order owner tr =
     (case foldl (deploying owner) Before tr of Wrong \<Rightarrow> False | _ \<Rightarrow> True)"

subsection \<open>The five handles\<close>

text \<open>
  \<open>Bound n\<close>: the first \<open>n\<close> handles are bound, each to its entry of the address book.
  The groups' remote operations need all five. After a handle that could not be bound
  the run shows nothing more.
\<close>

definition contract_names :: "string list" where
  "contract_names = [''hancoin_token'', ''loan_contract'', ''escrow_contract'',
                     ''swap_contract'', ''credit_card_simulator'']"

datatype binding = Bound nat | Stopped | Broken

fun binding_step :: "homebase \<Rightarrow> binding \<Rightarrow> event \<Rightarrow> binding" where
  "binding_step self Broken ev = Broken"
| "binding_step self Stopped ev = Broken"
| "binding_step self (Bound n) (Print s) = Bound n"
| "binding_step self (Bound n) (WriteFile p j) = Bound n"
| "binding_step self (Bound n) (FromAddress a u r) =
     (if n < 5 \<and> book_entry (addresses self) (contract_names ! n) = Inr a \<and> u = client self
      then (case r of Inl e \<Rightarrow> Stopped | Inr c \<Rightarrow> if c = Contract a then Bound (Suc n) else Broken)
      else Broken)"
| "binding_step self (Bound n) (Deploy acct h abi args v r) = Broken"
| "binding_step self (Bound n) ev = (if n = 5 then Bound n else Broken)"


subsection \<open>Assertions on programs\<close>

definition hoare ::
  "(event list \<Rightarrow> bool) \<Rightarrow> 'a prog \<Rightarrow> ('a \<Rightarrow> event list \<Rightarrow> bool)
   \<Rightarrow> (exn \<Rightarrow> event list \<Rightarrow> bool) \<Rightarrow> bool" where
  \<comment> \<open>from events that satisfy \<open>P\<close>, the program returns \<open>x\<close> with events that satisfy
      \<open>Q x\<close> or raises \<open>e\<close> with events that satisfy \<open>E e\<close>\<close>
  "hoare P m Q E =
     (\<forall>tr. P tr \<longrightarrow> (case m tr of (Inl e, tr') \<Rightarrow> E e tr' | (Inr x, tr') \<Rightarrow> Q x tr'))"

section \<open>Worlds to run the scripts in\<close>

definition demo_result :: result where
  "demo_result =
     [(''name'', PyStr ''Hancoin''), (''symbol'', PyStr ''HNXZ''), (''decimals'', PyInt 18),
      (''total_supply'', PyInt (1000 * 10 ^ 18)), (''balance'', PyInt (1000 * 10 ^ 18)),
      (''result'', PyInt 10000), (''rate'', PyInt 250), (''borrower'', PyInt 2748),
      (''loan_amount'', PyInt (5000 * 10 ^ 18)), (''collateral_amount'', PyInt (7500 * 10 ^ 18)),
      (''status'', PyInt 1), (''buyer'', PyInt 2748), (''seller'', PyInt 4011),
      (''amount'', PyInt (25000 * 10 ^ 18)), (''user'', PyInt 2748),
      (''fiat_amount'', PyInt 10000), (''hnxz_amount'', PyInt (40 * 10 ^ 18))]"

definition demo_world :: world where
  \<comment> \<open>credentials set, both files in place, every remote operation succeeds\<close>
  "demo_world =
     \<lparr>getenv = [''ACCOUNT_ADDRESS'' \<mapsto> ''0xabc'', ''PRIVATE_KEY'' \<mapsto> ''0x1''],
      contract_class_file = Holds [''abi'' \<mapsto> JObj []],
      deployment_addresses_file = Holds [''contracts'' \<mapsto>
         [''hancoin_token'' \<mapsto> PyStr ''0xa1'', ''loan_contract'' \<mapsto> PyStr ''0xa2'',
          ''escrow_contract'' \<mapsto> PyStr ''0xa3'', ''swap_contract'' \<mapsto> PyStr ''0xa4'',
          ''credit_card_simulator'' \<mapsto> PyStr ''0xa5'']],
      token_deployment_file = None,
      key_pair_of = (\<lambda>k. Inr 1),
      account_init = (\<lambda>a. None),
      result_text = (\<lambda>r. ''Result''),
      from_address_reply = (\<lambda>tr a u. None),
      deploy_reply = (\<lambda>tr a abi args.
         Inr \<lparr>hash = 7, block_number = None, deployed_address = 2748\<rparr>),
      call_reply = (\<lambda>tr c f args. Inr demo_result),
      invoke_reply = (\<lambda>tr c f args fee. Inr 7),
      acceptance_reply = (\<lambda>tr tx. None)\<rparr>"

definition with_env :: "(string \<rightharpoonup> string) \<Rightarrow> world \<Rightarrow> world" where
  "with_env env w = w\<lparr>getenv := env\<rparr>"

definition failing_call :: "string \<Rightarrow> exn \<Rightarrow> world \<Rightarrow> world" where
  \<comment> \<open>the same world, but the query \<open>f\<close> raises \<open>e\<close>\<close>
  "failing_call f e w =
     w\<lparr>call_reply := (\<lambda>tr c g args. if g = f then Inl e else call_reply w tr c g args)\<rparr>"

definition no_address_book :: "world \<Rightarrow> world" where
  "no_address_book w = w\<lparr>deployment_addresses_file := Absent\<rparr>"

definition no_contract_class :: "world \<Rightarrow> world" where
  "no_contract_class w = w\<lparr>contract_class_file := Absent\<rparr>"

definition staging_world :: world where
  \<comment> \<open>the demo world with \<open>NETWORK=staging\<close>\<close>
  "staging_world = demo_world\<lparr>getenv := [''NETWORK'' \<mapsto> ''staging'',
     ''ACCOUNT_ADDRESS'' \<mapsto> ''0xabc'', ''PRIVATE_KEY'' \<mapsto> ''0x1'']\<rparr>"

definition demo_self :: homebase where
  "demo_self =
     \<lparr>network = ''testnet'', account_address = Some ''0xabc'', private_key = Some ''0x1'',
      addresses = [''contracts'' \<mapsto>
         [''hancoin_token'' \<mapsto> PyStr ''0xa1'', ''loan_contract'' \<mapsto> PyStr ''0xa2'',
          ''escrow_contract'' \<mapsto> PyStr ''0xa3'', ''swap_contract'' \<mapsto> PyStr ''0xa4'',
          ''credit_card_simulator'' \<mapsto> PyStr ''0xa5'']],
      client = ''https://alpha4.starknet.io'',
      account = \<lparr>address = Some ''0xabc'', node_url = ''https://alpha4.starknet.io'',
                 key_pair = 1, chain = TESTNET\<rparr>\<rparr>"



definition submissions :: "event list \<Rightarrow> (string \<times> pyval list) list" where
  "submissions tr = concat (map (\<lambda>ev. case ev of Invoke c f args fee r \<Rightarrow> [(f, args)] | _ \<Rightarrow> []) tr)"

definition watching :: "event list \<Rightarrow> bool" where
  "watching tr = (foldl orchestrating Watching tr = Watching)"

definition started :: "string \<Rightarrow> event list \<Rightarrow> bool" where
  "started p tr = (watching tr \<or> foldl orchestrating Watching tr = NeedStart p)"

definition reporting :: "string \<Rightarrow> exn \<Rightarrow> event list \<Rightarrow> bool" where
  "reporting p e tr = (watching tr \<or> foldl orchestrating Watching tr = NeedReport p e)"

definition erring :: "exn \<Rightarrow> event list \<Rightarrow> bool" where
  "erring e tr = (watching tr \<or> foldl orchestrating Watching tr = NeedError e)"

definition ending :: "exn \<Rightarrow> event list \<Rightarrow> bool" where
  "ending e tr = (watching tr \<or> foldl orchestrating Watching tr = Aborted e)"

definition all_raw :: "event list \<Rightarrow> bool" where
  "all_raw tr = list_all raw_amounts tr"


definition not_yet :: "string option \<Rightarrow> event list \<Rightarrow> bool" where
  "not_yet owner tr = (foldl (deploying owner) Before tr = Before)"

definition accepted :: "string option \<Rightarrow> deploy_result \<Rightarrow> event list \<Rightarrow> bool" where
  "accepted owner d tr = (foldl (deploying owner) Before tr = Accepted d)"

definition extends :: "event list \<Rightarrow> event list \<Rightarrow> bool" where
  \<comment> \<open>the events begin with \<open>pre\<close>\<close>
  "extends pre tr = (\<exists>rest. tr = pre @ rest)"

text \<open>
  What a run of the deploy flow shows once its session is built (events \<open>tr\<close>) and the
  compiled class is read: the deployment is submitted for the account, with the address
  \<open>a\<close> as its only constructor argument, and when the submission returns, the wait for
  its acceptance follows; a submission or a wait that raises ends the run with that
  exception.
\<close>

definition submitted_and_awaited ::
  "event list \<Rightarrow> account \<Rightarrow> json \<Rightarrow> string \<Rightarrow> (exn + 'a) \<times> event list \<Rightarrow> bool" where
  "submitted_and_awaited tr acct abi a run =
     (\<exists>r rest.
        snd run = tr @ [Print ''Deploying contract...'', Deploy acct None abi [PyStr a] 1 r] @ rest
        \<and> (case r of
             Inl e \<Rightarrow> rest = [] \<and> fst run = Inl e
           | Inr d \<Rightarrow>
               (\<exists>rw rest'.
                  rest = [Print ''Waiting for deployment confirmation...'', Wait (hash d) rw] @ rest'
                  \<and> (case rw of Inl e \<Rightarrow> rest' = [] \<and> fst run = Inl e | Inr u \<Rightarrow> True))))"

section \<open>Rules for assertions\<close>

lemma hoare_bind:
  "hoare P m R E \<Longrightarrow> (\<And>x. hoare (R x) (f x) Q E) \<Longrightarrow> hoare P (bindP m f) Q E"
  unfolding hoare_def bindP_def by (fastforce split: prod.splits sum.splits)

lemma hoare_seq:
  "hoare I m (\<lambda>_. I) E \<Longrightarrow> (\<And>x. hoare I (f x) Q E) \<Longrightarrow> hoare I (bindP m f) Q E"
  by (rule hoare_bind)

lemma hoare_try:
  "hoare P m Q E' \<Longrightarrow> (\<And>e. hoare (E' e) (h e) Q E) \<Longrightarrow> hoare P (tryP m h) Q E"
  unfolding hoare_def tryP_def by (fastforce split: prod.splits sum.splits)

lemma hoare_return: "(\<And>tr. P tr \<Longrightarrow> Q x tr) \<Longrightarrow> hoare P (returnP x) Q E"
  unfolding hoare_def returnP_def by simp

lemma hoare_raise: "(\<And>tr. P tr \<Longrightarrow> E e tr) \<Longrightarrow> hoare P (raiseP e) Q E"
  unfolding hoare_def raiseP_def by simp

lemma hoare_lift:
  "(\<And>tr x. P tr \<Longrightarrow> Q x tr) \<Longrightarrow> (\<And>tr e. P tr \<Longrightarrow> E e tr) \<Longrightarrow> hoare P (lift r) Q E"
  unfolding hoare_def lift_def by (cases r) simp_all

lemma pieces_lit [simp]: "pieces (lit s # ps) = (case pieces ps of Inl e \<Rightarrow> Inl e | Inr t \<Rightarrow> Inr (s @ t))"
  by (simp add: lit_def)

lemma hoare_fprint:
  "(\<And>tr s. P tr \<Longrightarrow> Q () (tr @ [Print s])) \<Longrightarrow> (\<And>tr e. P tr \<Longrightarrow> E e tr)
   \<Longrightarrow> hoare P (fprint ps) Q E"
  unfolding hoare_def fprint_def raiseP_def emit_def by (cases "pieces ps") simp_all

lemma hoare_say: "(\<And>tr. P tr \<Longrightarrow> Q () (tr @ [Print s])) \<Longrightarrow> hoare P (fprint [lit s]) Q E"
  unfolding hoare_def fprint_def emit_def by simp

lemma hoare_say2:
  "(\<And>tr. P tr \<Longrightarrow> Q () (tr @ [Print (s @ t)])) \<Longrightarrow> hoare P (fprint [lit s, lit t]) Q E"
  unfolding hoare_def fprint_def emit_def by simp

lemma hoare_call:
  "(\<And>tr r. P tr \<Longrightarrow> Q r (tr @ [Call c f a (Inr r)]))
   \<Longrightarrow> (\<And>tr e. P tr \<Longrightarrow> E e (tr @ [Call c f a (Inl e)]))
   \<Longrightarrow> hoare P (call w c f a) Q E"
  unfolding hoare_def call_def Let_def by (auto split: sum.splits)

lemma hoare_from_address:
  "(\<And>tr. P tr \<Longrightarrow> Q (Contract a) (tr @ [FromAddress a u (Inr (Contract a))]))
   \<Longrightarrow> (\<And>tr e. P tr \<Longrightarrow> E e (tr @ [FromAddress a u (Inl e)]))
   \<Longrightarrow> hoare P (from_address w a u) Q E"
  unfolding hoare_def from_address_def Let_def by (auto split: option.splits)

lemma hoare_dump_json:
  "(\<And>tr. P tr \<Longrightarrow> Q () (tr @ [WriteFile p j])) \<Longrightarrow> (\<And>tr e. P tr \<Longrightarrow> E e tr)
   \<Longrightarrow> hoare P (dump_json w p j) Q E"
  unfolding hoare_def dump_json_def raiseP_def emit_def by (auto split: option.splits)

lemma hoare_invoke_wait:
  "(\<And>tr e. P tr \<Longrightarrow> E e (tr @ [Invoke c f a fee (Inl e)]))
   \<Longrightarrow> (\<And>tr tx e. P tr \<Longrightarrow> E e (tr @ [Invoke c f a fee (Inr tx), Wait tx (Inl e)]))
   \<Longrightarrow> (\<And>tr tx. P tr \<Longrightarrow> Q (tr @ [Invoke c f a fee (Inr tx), Wait tx (Inr ())]))
   \<Longrightarrow> (\<And>tx. hoare Q (g tx) R E)
   \<Longrightarrow> hoare P (bindP (invoke_v1 w c f a fee)
                 (\<lambda>tx. bindP (wait_for_acceptance w tx) (\<lambda>_. g tx))) R E"
  unfolding hoare_def bindP_def invoke_v1_def wait_for_acceptance_def Let_def
  by (auto split: sum.splits option.splits prod.splits)

lemma hoare_deploy_wait:
  "(\<And>tr e. P tr \<Longrightarrow> E e (tr @ [Deploy acct h abi args v (Inl e)]))
   \<Longrightarrow> (\<And>tr d e. P tr \<Longrightarrow>
          E e (tr @ [Deploy acct h abi args v (Inr d), Print s, Wait (hash d) (Inl e)]))
   \<Longrightarrow> (\<And>tr d. P tr \<Longrightarrow>
          Q d (tr @ [Deploy acct h abi args v (Inr d), Print s, Wait (hash d) (Inr ())]))
   \<Longrightarrow> (\<And>d. hoare (Q d) (g d) R E)
   \<Longrightarrow> hoare P (bindP (deploy_contract w acct h abi args v)
                 (\<lambda>d. bindP (fprint [lit s])
                 (\<lambda>_. bindP (wait_for_acceptance w (hash d)) (\<lambda>_. g d)))) R E"
  unfolding hoare_def bindP_def deploy_contract_def wait_for_acceptance_def fprint_def emit_def Let_def
  by (auto split: sum.splits option.splits prod.splits)

lemma hoare_if:
  "(b \<Longrightarrow> hoare P m Q E) \<Longrightarrow> (\<not> b \<Longrightarrow> hoare P n Q E) \<Longrightarrow> hoare P (if b then m else n) Q E"
  by simp

lemma hoare_case_sum:
  "(\<And>e. x = Inl e \<Longrightarrow> hoare P (f e) Q E) \<Longrightarrow> (\<And>v. x = Inr v \<Longrightarrow> hoare P (g v) Q E)
   \<Longrightarrow> hoare P (case x of Inl e \<Rightarrow> f e | Inr v \<Rightarrow> g v) Q E"
  by (cases x) simp_all

lemma hoare_case_option:
  "(x = None \<Longrightarrow> hoare P m Q E) \<Longrightarrow> (\<And>v. x = Some v \<Longrightarrow> hoare P (g v) Q E)
   \<Longrightarrow> hoare P (case x of None \<Rightarrow> m | Some v \<Rightarrow> g v) Q E"
  by (cases x) simp_all

lemma hoare_case_prod:
  "(\<And>a b. hoare P (f a b) Q E) \<Longrightarrow> hoare P (case x of (a, b) \<Rightarrow> f a b) Q E"
  by (cases x) simp

lemma hoare_weaken:
  "hoare P m Q E \<Longrightarrow> (\<And>x tr. Q x tr \<Longrightarrow> Q' x tr) \<Longrightarrow> (\<And>e tr. E e tr \<Longrightarrow> E' e tr)
   \<Longrightarrow> hoare P m Q' E'"
  unfolding hoare_def by (fastforce split: prod.splits sum.splits)

lemma hoare_run:
  "hoare P m Q E \<Longrightarrow> P tr \<Longrightarrow> (case m tr of (Inl e, tr') \<Rightarrow> E e tr' | (Inr x, tr') \<Rightarrow> Q x tr')"
  unfolding hoare_def by simp

section \<open>Configuration failures\<close>

lemma missing_credentials_deploy:
  "unset (getenv w ''ACCOUNT_ADDRESS'') \<or> unset (getenv w ''PRIVATE_KEY'') \<Longrightarrow>
   deploy_token w [] =
     (Inl (Exn ValueError ''ACCOUNT_ADDRESS and PRIVATE_KEY must be set in environment''), [])"
  by (auto simp: deploy_token_def deploy_token_session_def bindP_def raiseP_def unset_def Let_def
      split: option.splits)

lemma main_no_address_book:
  "deployment_addresses_file w = Absent \<Longrightarrow>
   main w [] = (Inr (), [Print ''deployment_addresses.json not found!'',
                         Print ''Please deploy contracts first using: ./scripts/deploy_all.sh''])"
  by (simp add: main_def path_exists_def bindP_def fprint_def emit_def)

lemma main_missing_credentials:
  "path_exists (deployment_addresses_file w) \<Longrightarrow>
   unset (getenv w ''ACCOUNT_ADDRESS'') \<or> unset (getenv w ''PRIVATE_KEY'') \<Longrightarrow>
   main w [] = (Inr (), [Print ''ACCOUNT_ADDRESS and PRIVATE_KEY must be set in .env file''])"
  by (simp add: main_def fprint_def emit_def)

lemma deploy_no_contract_class:
  "deploy_token_session w [] = (Inr (n, a, acct), tr) \<Longrightarrow> contract_class_file w = Absent \<Longrightarrow>
   deploy_token w [] =
     (Inr None, tr @ [Print ''Contract class file not found. Please run 'scarb build' first.''])"
  by (simp add: deploy_token_def deploy_token_body_def bindP_def open_json_def fprint_def
      emit_def returnP_def)

section \<open>Runs in the demo world\<close>

text \<open>
  The scripts evaluated from start to end in a world where every remote operation
  succeeds, and in the same world with a read-back that fails for another reason than a
  missing record.
\<close>

lemma demo_run:
  "case run_all_examples demo_world demo_self [] of (r, tr) \<Rightarrow>
     r = Inr ()
     \<and> foldl awaiting Idle tr = Idle
     \<and> foldl orchestrating Watching tr = Watching
     \<and> foldl (binding_step demo_self) (Bound 0) tr = Bound 5
     \<and> submissions tr =
         [(''transfer'', [PyStr ''0x1234567890123456789012345678901234567890123456789012345678901234'',
                          PyInt 1000000000000000000000]),
          (''request_loan'', [PyInt 5000000000000000000000, PyInt 7776000,
                              PyInt 7500000000000000000000]),
          (''create_escrow'', [PyStr ''0x5678901234567890123456789012345678901234567890123456789012345678'',
                               PyInt 25000000000000000000000, PyInt 22608498738081841, PyInt 2592000]),
          (''initiate_payment'', [PyInt 10000, PyStr ''USD'', PyInt 1234])]
     \<and> Print ''Initiating payment: $100.0 USD'' \<in> set tr"
  by code_simp

lemma failing_run:
  "case main (failing_call ''get_loan'' (Exn ClientError ''connection reset'') demo_world) []
   of (r, tr) \<Rightarrow>
     r = Inr ()
     \<and> Call (Contract (PyStr ''0xa2'')) ''get_loan'' [PyInt 1]
          (Inl (Exn ClientError ''connection reset'')) \<in> set tr
     \<and> Print ''No existing loans found: connection reset'' \<in> set tr
     \<and> Print ''\<newline>=== ESCROW CONTRACT INTERACTIONS ==='' \<in> set tr
     \<and> Print ''All interactions completed successfully!'' \<in> set tr"
  by code_simp

lemma demo_deploy:
  "case deploy_token demo_world [] of (r, tr) \<Rightarrow>
     r = Inr (Some (2748, Contract (PyInt 2748)))
     \<and> foldl (deploying (Some ''0xabc'')) Before tr
         = Accepted \<lparr>hash = 7, block_number = None, deployed_address = 2748\<rparr>
     \<and> foldl awaiting Idle tr = Idle
     \<and> Print ''Total Supply: 1,000 HNXZ'' \<in> set tr"
  by code_simp

section \<open>Acceptance is awaited\<close>

lemma idle_steps:
  "idle tr \<Longrightarrow> idle (tr @ [Print s])"
  "idle tr \<Longrightarrow> idle (tr @ [WriteFile p j])"
  "idle tr \<Longrightarrow> idle (tr @ [Call c f a r])"
  "idle tr \<Longrightarrow> idle (tr @ [FromAddress ad u rc])"
  "idle tr \<Longrightarrow> idle (tr @ [Invoke c f a fee (Inr tx), Wait tx (Inr ())])"
  "idle tr \<Longrightarrow> idle (tr @ [Deploy acct h abi args v (Inr d), Print s, Wait (hash d) (Inr ())])"
  "idle tr \<Longrightarrow> settled (tr @ [Invoke c f a fee (Inr tx), Wait tx (Inl e)])"
  "idle tr \<Longrightarrow> settled (tr @ [Invoke c f a fee (Inl e)])"
  "idle tr \<Longrightarrow> settled (tr @ [Deploy acct h abi args v (Inr d), Print s, Wait (hash d) (Inl e)])"
  "idle tr \<Longrightarrow> settled (tr @ [Deploy acct h abi args v (Inl e)])"
  "idle tr \<Longrightarrow> settled (tr @ [Call c f a r])"
  "idle tr \<Longrightarrow> settled (tr @ [FromAddress ad u rc])"
  "idle tr \<Longrightarrow> settled tr"
  by (simp_all add: idle_def settled_def)

lemma settled_print: "settled tr \<Longrightarrow> settled (tr @ [Print s])"
  by (cases "foldl awaiting Idle tr") (simp_all add: settled_def)

lemmas idle_rules =
  hoare_invoke_wait [where P = idle and Q = idle]
  hoare_deploy_wait [where P = idle and Q = "\<lambda>_. idle"]
  hoare_seq [where I = idle]
  hoare_try [where P = idle and E' = "\<lambda>_. idle"]
  hoare_say hoare_say2 hoare_fprint hoare_call hoare_from_address hoare_dump_json
  hoare_lift hoare_if hoare_return hoare_raise hoare_case_sum hoare_case_option hoare_case_prod

lemma token_idle:
  "hoare idle (token_interactions w self cs) (\<lambda>_. idle) (\<lambda>_. settled)"
  unfolding token_interactions_def Let_def
  by (intro idle_rules) (simp_all add: idle_steps)

lemma loan_idle:
  "hoare idle (loan_interactions w self cs) (\<lambda>_. idle) (\<lambda>_. settled)"
  unfolding loan_interactions_def Let_def
  by (intro idle_rules) (simp_all add: idle_steps)

lemma escrow_idle:
  "hoare idle (escrow_interactions w self cs) (\<lambda>_. idle) (\<lambda>_. settled)"
  unfolding escrow_interactions_def Let_def
  by (intro idle_rules) (simp_all add: idle_steps)

lemma swap_idle:
  "hoare idle (swap_interactions w self cs) (\<lambda>_. idle) (\<lambda>_. settled)"
  unfolding swap_interactions_def Let_def
  by (intro idle_rules) (simp_all add: idle_steps)

lemma credit_card_idle:
  "hoare idle (credit_card_interactions w self cs) (\<lambda>_. idle) (\<lambda>_. settled)"
  unfolding credit_card_interactions_def Let_def
  by (intro idle_rules) (simp_all add: idle_steps)

lemma setup_idle:
  "hoare idle (setup_contracts w self) (\<lambda>_. idle) (\<lambda>_. settled)"
  unfolding setup_contracts_def
  by (intro idle_rules) (simp_all add: idle_steps)

lemma run_all_idle:
  "hoare idle (run_all_examples w self) (\<lambda>_. idle) (\<lambda>_. settled)"
  unfolding run_all_examples_def
  apply (intro hoare_seq [where I = idle] hoare_say setup_idle)
    apply (simp_all add: idle_steps)
  apply (rule hoare_try [where E' = "\<lambda>_. settled"])
   apply (intro hoare_seq [where I = idle] hoare_say token_idle loan_idle escrow_idle swap_idle
      credit_card_idle)
    apply (simp_all add: idle_steps)
  apply (rule hoare_bind [where R = "\<lambda>_. settled"])
   apply (rule hoare_say2)
   apply (simp add: settled_print)
  apply (rule hoare_raise)
  apply simp
  done

lemma main_idle: "hoare idle (main w) (\<lambda>_. idle) (\<lambda>_. settled)"
  unfolding main_def
  by (intro idle_rules run_all_idle) (simp_all add: idle_steps)

lemma deploy_token_idle: "hoare idle (deploy_token w) (\<lambda>_. idle) (\<lambda>_. settled)"
  unfolding deploy_token_def deploy_token_session_def deploy_token_body_def Let_def
  by (intro idle_rules) (simp_all add: idle_steps)

lemma test_token_functions_idle:
  "hoare idle (test_token_functions w a acct) (\<lambda>_. idle) (\<lambda>_. settled)"
  unfolding test_token_functions_def Let_def
  by (intro idle_rules) (simp_all add: idle_steps)

lemma idle_settled_run:
  assumes "hoare idle m (\<lambda>_. idle) (\<lambda>_. settled)"
  shows "settled (snd (m []))"
proof -
  have "idle []" by (simp add: idle_def)
  from hoare_run [OF assms this] show ?thesis
    by (auto split: prod.splits sum.splits simp: idle_steps)
qed

text \<open>
  Claim C1. In every workflow (the interaction script from \<open>main\<close>, the deployment
  and the token test of the deploy script) a state-changing submission is followed by
  the wait for its acceptance before any other remote operation is issued, so every
  read that comes after the submission comes after the completed wait; when the
  submission or the wait raises, no remote operation follows at all.
\<close>

theorem acceptance_awaited:
  "settled (snd (main w [])) \<and> settled (snd (deploy_token w []))
   \<and> settled (snd (test_token_functions w a acct []))"
  by (intro conjI idle_settled_run main_idle deploy_token_idle test_token_functions_idle)


theorem acceptance_awaited_witness:
  "settled (snd (main demo_world [])) \<and> settled (snd (deploy_token demo_world []))
   \<and> settled (snd (test_token_functions demo_world 2748
         \<lparr>address = Some ''0xabc'', node_url = ''https://alpha4.starknet.io'',
          key_pair = 1, chain = TESTNET\<rparr> []))"
  by (rule acceptance_awaited)

section \<open>The network selector\<close>

lemma interaction_endpoint:
  "HomebaseInteraction w = Inr self \<Longrightarrow>
   client self = (if getenv_or w ''NETWORK'' ''testnet'' = ''testnet''
                  then ''https://alpha4.starknet.io'' else ''https://alpha-mainnet.starknet.io'')
   \<and> chain (account self) = (if getenv_or w ''NETWORK'' ''testnet'' = ''testnet''
                              then TESTNET else MAINNET)"
  by (auto simp: HomebaseInteraction_def Let_def Account_def
      split: sum.splits option.splits if_splits)

lemma deploy_endpoint:
  "deploy_token_session w tr = (Inr (n, a, acct), tr') \<Longrightarrow>
   n = getenv_or w ''NETWORK'' ''testnet'' \<and> NETWORK_URL n = Some (node_url acct)
   \<and> (n = ''testnet'' \<or> n = ''mainnet'')
   \<and> chain acct = (if n = ''testnet'' then TESTNET else MAINNET)"
  unfolding deploy_token_session_def Let_def
  by (auto simp: bindP_def fprint_def emit_def raiseP_def returnP_def lift_def subscript_def
      NETWORK_URL_def Account_def
      split: option.splits if_splits sum.splits prod.splits)

text \<open>
  Claim C2. For \<open>testnet\<close> and \<open>mainnet\<close> both scripts take the endpoint and the chain
  from the same two entries, and any other selector is to fail fast. The deploy script
  does: \<open>NETWORK_URL[network]\<close> raises KeyError before any remote operation. The
  interaction script does not: with \<open>NETWORK=staging\<close> its constructor returns a client
  for the mainnet endpoint and an account on the mainnet chain. (For the two known
  selectors both scripts agree with the table: \<open>interaction_endpoint\<close>,
  \<open>deploy_endpoint\<close>.)
\<close>

theorem unknown_network_selects_mainnet:
  "getenv staging_world ''NETWORK'' = Some ''staging''
   \<and> (case HomebaseInteraction staging_world of
         Inl e \<Rightarrow> False
       | Inr self \<Rightarrow> client self = ''https://alpha-mainnet.starknet.io''
                     \<and> chain (account self) = MAINNET)
   \<and> deploy_token staging_world [] =
         (Inl (Exn KeyError (quoted ''staging'')),
          [Print ''Deploying Hancoin Token to staging...'', Print ''Account: 0xabc''])"
  by code_simp

section \<open>The orchestrator tolerates every failed read-back\<close>

lemma watching_steps:
  "watching tr \<Longrightarrow> watching (tr @ [Print s])"
  "watching tr \<Longrightarrow> watching (tr @ [Call c f a (Inr r)])"
  "watching tr \<Longrightarrow> watching (tr @ [FromAddress ad u (Inr rc)])"
  "watching tr \<Longrightarrow> watching (tr @ [Invoke c f a fee (Inr tx), Wait tx (Inr ())])"
  "watching tr \<Longrightarrow> erring e (tr @ [Invoke c f a fee (Inr tx), Wait tx (Inl e)])"
  "watching tr \<Longrightarrow> erring e (tr @ [Invoke c f a fee (Inl e)])"
  "watching tr \<Longrightarrow> ending e (tr @ [FromAddress ad u (Inl e)])"
  "watching tr \<Longrightarrow> started p tr"
  "watching tr \<Longrightarrow> started p (tr @ [Print s])"
  "watching tr \<Longrightarrow> reporting p e tr"
  "watching tr \<Longrightarrow> erring e tr"
  "watching tr \<Longrightarrow> ending e tr"
  by (simp_all add: watching_def started_def reporting_def erring_def ending_def)

lemma failed_call:
  "watching tr \<Longrightarrow> report_of f = None \<Longrightarrow> erring e (tr @ [Call c f a (Inl e)])"
  "watching tr \<Longrightarrow> report_of f = Some p \<Longrightarrow> reporting p e (tr @ [Call c f a (Inl e)])"
  by (simp_all add: watching_def erring_def reporting_def)

lemma reported:
  "reporting p e tr \<Longrightarrow> started p (tr @ [Print (p @ message e)])"
  by (auto simp: watching_def started_def reporting_def)

lemma restarted:
  "started p tr \<Longrightarrow> s = next_start p \<Longrightarrow> watching (tr @ [Print s])"
  by (auto simp: watching_def started_def)

lemma error_printed:
  "erring e tr \<Longrightarrow> ending e (tr @ [Print (''Error during interactions: '' @ message e)])"
  by (auto simp: watching_def erring_def ending_def)

lemma try_report_watching:
  "hoare watching m (\<lambda>_. started p) (reporting p)
   \<Longrightarrow> hoare watching (tryP m (\<lambda>e. fprint [lit p, lit (message e)])) (\<lambda>_. started p) E"
  by (rule hoare_try [where E' = "reporting p"]) (auto intro: hoare_say2 reported)

lemmas watching_rules = try_report_watching
  hoare_invoke_wait [where P = watching and Q = watching]
  hoare_seq [where I = watching]
  hoare_say hoare_say2 hoare_fprint hoare_call hoare_from_address
  hoare_lift hoare_if hoare_return hoare_raise

lemmas watching_simps = watching_steps failed_call reported report_of_def

lemma token_watching:
  "hoare watching (token_interactions w self cs) (\<lambda>_. watching) erring"
  unfolding token_interactions_def Let_def
  by (intro watching_rules) (simp_all add: watching_simps)

lemma loan_watching:
  "hoare watching (loan_interactions w self cs)
     (\<lambda>_. started ''No existing loans found: '') erring"
  unfolding loan_interactions_def Let_def
  by (intro watching_rules)
     (simp_all add: watching_simps)

lemma escrow_watching:
  "hoare (started ''No existing loans found: '') (escrow_interactions w self cs)
     (\<lambda>_. started ''No existing escrow orders found: '') erring"
  unfolding escrow_interactions_def Let_def
  apply (rule hoare_bind [where R = "\<lambda>_. watching"])
   apply (rule hoare_say)
   apply (erule restarted)
   apply (simp add: next_start_def)
  apply (intro watching_rules)
                      apply (simp_all add: watching_simps)
  done

lemma swap_watching:
  "hoare (started ''No existing escrow orders found: '') (swap_interactions w self cs)
     (\<lambda>_. started ''Swap quote failed: '') erring"
  unfolding swap_interactions_def Let_def
  apply (rule hoare_bind [where R = "\<lambda>_. watching"])
   apply (rule hoare_say)
   apply (erule restarted)
   apply (simp add: next_start_def)
  apply (intro watching_rules)
                      apply (simp_all add: watching_simps)
  done

lemma credit_card_watching:
  "hoare (started ''Swap quote failed: '') (credit_card_interactions w self cs)
     (\<lambda>_. started ''No existing payments found: '') erring"
  unfolding credit_card_interactions_def Let_def
  apply (rule hoare_bind [where R = "\<lambda>_. watching"])
   apply (rule hoare_say)
   apply (erule restarted)
   apply (simp add: next_start_def)
  apply (intro watching_rules)
                      apply (simp_all add: watching_simps)
  done

lemma setup_watching:
  "hoare watching (setup_contracts w self) (\<lambda>_. watching) ending"
  unfolding setup_contracts_def
  by (intro watching_rules) (simp_all add: watching_simps)

lemma groups_watching:
  "hoare watching
     (bindP (token_interactions w self cs) (\<lambda>_.
      bindP (loan_interactions w self cs) (\<lambda>_.
      bindP (escrow_interactions w self cs) (\<lambda>_.
      bindP (swap_interactions w self cs) (\<lambda>_.
      bindP (credit_card_interactions w self cs) (\<lambda>_.
      bindP (fprint [lit (''\<newline>'' @ replicate 50 (CHR ''=''))]) (\<lambda>_.
      fprint [lit ''All interactions completed successfully!''])))))))
     (\<lambda>_. watching) erring"
  apply (rule hoare_bind [OF token_watching])
  apply (rule hoare_bind [OF loan_watching])
  apply (rule hoare_bind [OF escrow_watching])
  apply (rule hoare_bind [OF swap_watching])
  apply (rule hoare_bind [OF credit_card_watching])
  apply (rule hoare_bind [where R = "\<lambda>_. watching"])
   apply (rule hoare_say)
   apply (erule restarted)
   apply (simp add: next_start_def)
  apply (rule hoare_say)
  apply (simp add: watching_steps)
  done

lemma run_all_watching:
  "hoare watching (run_all_examples w self) (\<lambda>_. watching) ending"
  unfolding run_all_examples_def
  apply (rule hoare_seq [where I = watching])
   apply (rule hoare_say)
   apply (simp add: watching_steps)
  apply (rule hoare_seq [where I = watching])
   apply (rule hoare_say)
   apply (simp add: watching_steps)
  apply (rule hoare_bind [OF setup_watching])
  apply (rule hoare_try [OF groups_watching])
  apply (rule hoare_bind [where R = "\<lambda>_. ending e" for e])
   apply (rule hoare_say2)
   apply (erule error_printed)
  apply (rule hoare_raise)
  apply assumption
  done

text \<open>
  Claim C3, as stated, fails: a read-back that raises for another reason than a missing
  record is caught like any other, the report is printed and the next group runs. Here
  \<open>get_loan\<close> raises a client error that is no "not found" condition, and the run
  completes.
\<close>

theorem readback_failure_counterexample:
  "\<not> is_not_found (Exn ClientError ''connection reset'')
   \<and> Call (Contract (PyStr ''0xa2'')) ''get_loan'' [PyInt 1]
        (Inl (Exn ClientError ''connection reset''))
       \<in> set (snd (main (failing_call ''get_loan'' (Exn ClientError ''connection reset'')
                        demo_world) []))
   \<and> Print ''\<newline>=== ESCROW CONTRACT INTERACTIONS ===''
       \<in> set (snd (main (failing_call ''get_loan'' (Exn ClientError ''connection reset'')
                        demo_world) []))
   \<and> fst (main (failing_call ''get_loan'' (Exn ClientError ''connection reset'') demo_world) [])
       = Inr ()"
  using failing_run
  by (cases "main (failing_call ''get_loan'' (Exn ClientError ''connection reset'') demo_world) []")
     (simp add: is_not_found_def)

text \<open>
  Claim C3, amended. In every run of the orchestrator, an exception raised by a
  per-group read-back (a missing record or anything else derived from \<open>Exception\<close>) is
  followed by the group's report, which shows its message, and then by the start of the
  next group. An exception raised by a remote operation outside the read-back (a
  statistics query, the invocation or its acceptance wait) is followed by the line
  \<open>Error during interactions: ...\<close> and by nothing else, and the orchestrator raises that
  same exception: the remaining groups are not executed.
\<close>

theorem readback_failures_tolerated: "tolerated (run_all_examples w self [])"
proof -
  have "watching []" by (simp add: watching_def)
  from hoare_run [OF run_all_watching this, of w self] show ?thesis
    by (auto simp: tolerated_def watching_def ending_def split: prod.splits sum.splits)
qed


theorem readback_failures_tolerated_witness:
  "tolerated (run_all_examples
      (failing_call ''get_loan'' (Exn ClientError ''connection reset'') demo_world) demo_self [])"
  by (rule readback_failures_tolerated)

section \<open>Missing credentials\<close>

text \<open>
  Claim C4. Whenever \<open>ACCOUNT_ADDRESS\<close> or \<open>PRIVATE_KEY\<close> is absent or empty (neither
  set, only the address, only the key), each workflow ends with a configuration error
  before any remote operation: the deploy script raises ValueError with nothing printed,
  the interaction script prints its diagnostic (for the missing address book, when that
  file is absent too) and returns. Neither run shows a network event.
\<close>

theorem missing_credentials_stop_before_network:
  "unset (getenv w ''ACCOUNT_ADDRESS'') \<or> unset (getenv w ''PRIVATE_KEY'') \<Longrightarrow>
   deploy_token w [] =
     (Inl (Exn ValueError ''ACCOUNT_ADDRESS and PRIVATE_KEY must be set in environment''), [])
   \<and> main w [] =
     (Inr (),
      if path_exists (deployment_addresses_file w)
      then [Print ''ACCOUNT_ADDRESS and PRIVATE_KEY must be set in .env file'']
      else [Print ''deployment_addresses.json not found!'',
            Print ''Please deploy contracts first using: ./scripts/deploy_all.sh''])
   \<and> filter network_event (snd (deploy_token w [])) = []
   \<and> filter network_event (snd (main w [])) = []"
  using missing_credentials_deploy [of w] main_no_address_book [of w]
    main_missing_credentials [of w]
  by (cases "deployment_addresses_file w") (auto simp: path_exists_def network_event_def)

theorem missing_credentials_stop_before_network_witness:
  "(unset (getenv (with_env Map.empty demo_world) ''ACCOUNT_ADDRESS'')
    \<and> unset (getenv (with_env Map.empty demo_world) ''PRIVATE_KEY'')
    \<and> filter network_event (snd (deploy_token (with_env Map.empty demo_world) [])) = []
    \<and> filter network_event (snd (main (with_env Map.empty demo_world) [])) = [])
   \<and> (unset (getenv (with_env [''ACCOUNT_ADDRESS'' \<mapsto> ''0xabc''] demo_world) ''PRIVATE_KEY'')
    \<and> filter network_event
        (snd (deploy_token (with_env [''ACCOUNT_ADDRESS'' \<mapsto> ''0xabc''] demo_world) [])) = []
    \<and> filter network_event
        (snd (main (with_env [''ACCOUNT_ADDRESS'' \<mapsto> ''0xabc''] demo_world) [])) = [])
   \<and> (unset (getenv (with_env [''PRIVATE_KEY'' \<mapsto> ''0x1''] demo_world) ''ACCOUNT_ADDRESS'')
    \<and> filter network_event
        (snd (deploy_token (with_env [''PRIVATE_KEY'' \<mapsto> ''0x1''] demo_world) [])) = []
    \<and> filter network_event
        (snd (main (with_env [''PRIVATE_KEY'' \<mapsto> ''0x1''] demo_world) [])) = [])"
proof -
  have a: "unset (getenv (with_env Map.empty demo_world) ''ACCOUNT_ADDRESS'')"
    and b: "unset (getenv (with_env Map.empty demo_world) ''PRIVATE_KEY'')"
    and c: "unset (getenv (with_env [''ACCOUNT_ADDRESS'' \<mapsto> ''0xabc''] demo_world) ''PRIVATE_KEY'')"
    and d: "unset (getenv (with_env [''PRIVATE_KEY'' \<mapsto> ''0x1''] demo_world) ''ACCOUNT_ADDRESS'')"
    by (simp_all add: with_env_def unset_def)
  show ?thesis
    using a b c d
      missing_credentials_stop_before_network [OF disjI1 [OF a]]
      missing_credentials_stop_before_network [OF disjI2 [OF c]]
      missing_credentials_stop_before_network [OF disjI1 [OF d]]
    by blast
qed

section \<open>A missing address book\<close>

text \<open>
  Claim C5, as stated, fails on the exit status: without \<open>deployment_addresses.json\<close>
  the interaction script prints its two lines and returns, so the process ends with
  status 0.
\<close>

theorem missing_address_book_counterexample:
  "deployment_addresses_file (no_address_book demo_world) = Absent
   \<and> exit_status (main (no_address_book demo_world) []) = 0"
  by (simp add: no_address_book_def exit_status_def main_no_address_book)

text \<open>
  Claim C5, amended. When \<open>deployment_addresses.json\<close> is absent, the interaction
  workflow does not crash: it prints that the file was not found and that the contracts
  are to be deployed first with \<open>./scripts/deploy_all.sh\<close>, issues no remote operation,
  and returns normally; the process ends with exit status 0.
\<close>

theorem missing_address_book_reported:
  "deployment_addresses_file w = Absent \<Longrightarrow>
   main w [] = (Inr (), [Print ''deployment_addresses.json not found!'',
                         Print ''Please deploy contracts first using: ./scripts/deploy_all.sh''])
   \<and> exit_status (main w []) = 0"
  by (simp add: main_no_address_book exit_status_def)

theorem missing_address_book_reported_witness:
  "deployment_addresses_file (no_address_book demo_world) = Absent
   \<and> main (no_address_book demo_world) [] =
       (Inr (), [Print ''deployment_addresses.json not found!'',
                 Print ''Please deploy contracts first using: ./scripts/deploy_all.sh''])
   \<and> exit_status (main (no_address_book demo_world) []) = 0"
proof -
  have h: "deployment_addresses_file (no_address_book demo_world) = Absent"
    by (simp add: no_address_book_def)
  show ?thesis using h missing_address_book_reported [OF h] by blast
qed

section \<open>Exit status on configuration failures\<close>

text \<open>
  Claim C6, as stated, fails for the deploy script: with the credentials missing it
  raises ValueError past the top level, without printing, and the process ends with
  status 1.
\<close>

theorem configuration_exit_counterexample:
  "unset (getenv (with_env Map.empty demo_world) ''ACCOUNT_ADDRESS'')
   \<and> deploy_token (with_env Map.empty demo_world) [] =
       (Inl (Exn ValueError ''ACCOUNT_ADDRESS and PRIVATE_KEY must be set in environment''), [])
   \<and> exit_status (deploy_token (with_env Map.empty demo_world) []) = 1"
  by (simp add: missing_credentials_deploy exit_status_def with_env_def unset_def)

text \<open>
  Claim C6, amended. On a missing required file each script prints an explicit
  diagnostic and returns without raising, so the process ends with status 0: the
  interaction script for the address book, the deploy script for the compiled contract
  class once its session is built. On missing credentials the interaction script does
  the same, whereas the deploy script raises ValueError past the top level and the
  process ends with status 1.
\<close>

theorem configuration_failures_exit:
  "(deployment_addresses_file w = Absent \<longrightarrow>
      main w [] = (Inr (), [Print ''deployment_addresses.json not found!'',
                            Print ''Please deploy contracts first using: ./scripts/deploy_all.sh''])
      \<and> exit_status (main w []) = 0)
   \<and> (path_exists (deployment_addresses_file w)
       \<and> (unset (getenv w ''ACCOUNT_ADDRESS'') \<or> unset (getenv w ''PRIVATE_KEY'')) \<longrightarrow>
      main w [] = (Inr (), [Print ''ACCOUNT_ADDRESS and PRIVATE_KEY must be set in .env file''])
      \<and> exit_status (main w []) = 0)
   \<and> (deploy_token_session w [] = (Inr (n, a, acct), tr) \<and> contract_class_file w = Absent \<longrightarrow>
      deploy_token w [] =
        (Inr None, tr @ [Print ''Contract class file not found. Please run 'scarb build' first.''])
      \<and> exit_status (deploy_token w []) = 0)
   \<and> (unset (getenv w ''ACCOUNT_ADDRESS'') \<or> unset (getenv w ''PRIVATE_KEY'') \<longrightarrow>
      deploy_token w [] =
        (Inl (Exn ValueError ''ACCOUNT_ADDRESS and PRIVATE_KEY must be set in environment''), [])
      \<and> exit_status (deploy_token w []) = 1)"
  using main_no_address_book [of w] main_missing_credentials [of w]
    deploy_no_contract_class [of w n a acct tr] missing_credentials_deploy [of w]
  by (auto simp: exit_status_def)

lemma no_contract_class_session:
  "deploy_token_session (no_contract_class demo_world) [] =
     (Inr (''testnet'', ''0xabc'',
           \<lparr>address = Some ''0xabc'', node_url = ''https://alpha4.starknet.io'',
            key_pair = 1, chain = TESTNET\<rparr>),
      [Print ''Deploying Hancoin Token to testnet...'', Print ''Account: 0xabc''])"
  by code_simp

theorem configuration_failures_exit_witness:
  "(deployment_addresses_file (no_address_book demo_world) = Absent
    \<and> exit_status (main (no_address_book demo_world) []) = 0)
   \<and> (path_exists (deployment_addresses_file (with_env Map.empty demo_world))
    \<and> unset (getenv (with_env Map.empty demo_world) ''ACCOUNT_ADDRESS'')
    \<and> exit_status (main (with_env Map.empty demo_world) []) = 0
    \<and> exit_status (deploy_token (with_env Map.empty demo_world) []) = 1)
   \<and> (contract_class_file (no_contract_class demo_world) = Absent
    \<and> deploy_token (no_contract_class demo_world) [] =
        (Inr None,
         [Print ''Deploying Hancoin Token to testnet...'', Print ''Account: 0xabc'',
          Print ''Contract class file not found. Please run 'scarb build' first.''])
    \<and> exit_status (deploy_token (no_contract_class demo_world) []) = 0)"
proof -
  have a: "deployment_addresses_file (no_address_book demo_world) = Absent"
    by (simp add: no_address_book_def)
  have b: "path_exists (deployment_addresses_file (with_env Map.empty demo_world))"
    and c: "unset (getenv (with_env Map.empty demo_world) ''ACCOUNT_ADDRESS'')"
    by (simp_all add: with_env_def demo_world_def path_exists_def unset_def)
  have d: "contract_class_file (no_contract_class demo_world) = Absent"
    by (simp add: no_contract_class_def)
  note t1 = configuration_failures_exit [of "no_address_book demo_world"]
  note t2 = configuration_failures_exit [of "with_env Map.empty demo_world"]
  note t3 = configuration_failures_exit [of "no_contract_class demo_world" "''testnet''" "''0xabc''"
      "\<lparr>address = Some ''0xabc'', node_url = ''https://alpha4.starknet.io'',
        key_pair = 1, chain = TESTNET\<rparr>"
      "[Print ''Deploying Hancoin Token to testnet...'', Print ''Account: 0xabc'']"]
  from t1 a have 1: "exit_status (main (no_address_book demo_world) []) = 0" by blast
  from t2 b c have 2: "exit_status (main (with_env Map.empty demo_world) []) = 0"
    and 3: "exit_status (deploy_token (with_env Map.empty demo_world) []) = 1" by blast+
  from t3 d no_contract_class_session
  have 4: "deploy_token (no_contract_class demo_world) [] =
        (Inr None,
         [Print ''Deploying Hancoin Token to testnet...'', Print ''Account: 0xabc'']
         @ [Print ''Contract class file not found. Please run 'scarb build' first.''])"
    and 5: "exit_status (deploy_token (no_contract_class demo_world) []) = 0" by blast+
  from a b c d 1 2 3 4 5 show ?thesis by simp
qed

section \<open>Amounts are passed raw\<close>

lemmas raw_rules =
  hoare_invoke_wait [where P = all_raw and Q = all_raw]
  hoare_seq [where I = all_raw]
  hoare_try [where P = all_raw and E' = "\<lambda>_. all_raw"]
  hoare_say hoare_say2 hoare_fprint hoare_call hoare_from_address
  hoare_lift hoare_if hoare_return hoare_raise

lemma token_raw:
  "hoare all_raw (token_interactions w self cs) (\<lambda>_. all_raw) (\<lambda>_. all_raw)"
  unfolding token_interactions_def Let_def
  by (intro raw_rules) (simp_all add: all_raw_def)

lemma loan_raw:
  "hoare all_raw (loan_interactions w self cs) (\<lambda>_. all_raw) (\<lambda>_. all_raw)"
  unfolding loan_interactions_def Let_def
  by (intro raw_rules) (simp_all add: all_raw_def)

lemma escrow_raw:
  "hoare all_raw (escrow_interactions w self cs) (\<lambda>_. all_raw) (\<lambda>_. all_raw)"
  unfolding escrow_interactions_def Let_def
  by (intro raw_rules) (simp_all add: all_raw_def)

lemma swap_raw:
  "hoare all_raw (swap_interactions w self cs) (\<lambda>_. all_raw) (\<lambda>_. all_raw)"
  unfolding swap_interactions_def Let_def
  by (intro raw_rules) (simp_all add: all_raw_def)

lemma credit_card_raw:
  "hoare all_raw (credit_card_interactions w self cs) (\<lambda>_. all_raw) (\<lambda>_. all_raw)"
  unfolding credit_card_interactions_def Let_def
  by (intro raw_rules) (simp_all add: all_raw_def)

lemma setup_raw:
  "hoare all_raw (setup_contracts w self) (\<lambda>_. all_raw) (\<lambda>_. all_raw)"
  unfolding setup_contracts_def
  by (intro raw_rules) (simp_all add: all_raw_def)

lemma run_all_raw:
  "hoare all_raw (run_all_examples w self) (\<lambda>_. all_raw) (\<lambda>_. all_raw)"
  unfolding run_all_examples_def
  by (intro raw_rules token_raw loan_raw escrow_raw swap_raw credit_card_raw setup_raw)
     (simp_all add: all_raw_def)

lemma main_raw: "hoare all_raw (main w) (\<lambda>_. all_raw) (\<lambda>_. all_raw)"
  unfolding main_def
  by (intro raw_rules run_all_raw) (simp_all add: all_raw_def)

text \<open>
  Claim C7. In every run of the interaction workflow, each call of \<open>transfer\<close>,
  \<open>request_loan\<close>, \<open>create_escrow\<close>, \<open>initiate_payment\<close>, \<open>calculate_hnxz_amount\<close> and
  \<open>get_swap_quote\<close> carries the raw integer amounts of the source (\<open>1000 * 10^18\<close>,
  \<open>5000 * 10^18\<close> with \<open>7500 * 10^18\<close>, \<open>25000 * 10^18\<close>, \<open>10000\<close> cents): no amount that
  reaches a remote call has been divided by its scale. The divisions by \<open>10^18\<close> and by
  \<open>100\<close> occur in the pieces of printed lines only.
\<close>

theorem amounts_passed_raw:
  "list_all raw_amounts (snd (run_all_examples w self [])) \<and> list_all raw_amounts (snd (main w []))"
proof -
  have "all_raw []" by (simp add: all_raw_def)
  from hoare_run [OF run_all_raw this, of w self] hoare_run [OF main_raw this, of w]
  show ?thesis
    by (auto simp: all_raw_def split: prod.splits sum.splits)
qed


theorem amounts_passed_raw_witness:
  "list_all raw_amounts (snd (run_all_examples demo_world demo_self []))
   \<and> list_all raw_amounts (snd (main demo_world []))"
  by (rule amounts_passed_raw)

section \<open>Display formatting\<close>



section \<open>The deployment\<close>

lemma not_yet_steps:
  "not_yet owner tr \<Longrightarrow> not_yet owner (tr @ [Print s])"
  "not_yet owner tr \<Longrightarrow> deployed_in_order owner tr"
  "not_yet (Some a) tr \<Longrightarrow> address acct = Some a \<Longrightarrow>
     deployed_in_order (Some a) (tr @ [Deploy acct h abi [PyStr a] v (Inl e)])"
  "not_yet (Some a) tr \<Longrightarrow> address acct = Some a \<Longrightarrow>
     deployed_in_order (Some a)
       (tr @ [Deploy acct h abi [PyStr a] v (Inr d), Print s, Wait (hash d) (Inl e)])"
  "not_yet (Some a) tr \<Longrightarrow> address acct = Some a \<Longrightarrow>
     accepted (Some a) d
       (tr @ [Deploy acct h abi [PyStr a] v (Inr d), Print s, Wait (hash d) (Inr ())])"
  by (simp_all add: not_yet_def accepted_def deployed_in_order_def)

lemma accepted_steps:
  "accepted owner d tr \<Longrightarrow> accepted owner d (tr @ [Print s])"
  "accepted owner d tr \<Longrightarrow> accepted owner d (tr @ [WriteFile p j])"
  "accepted owner d tr \<Longrightarrow>
     accepted owner d (tr @ [Call (Contract (PyInt (deployed_address d))) f args (Inr r)])"
  "accepted owner d tr \<Longrightarrow>
     deployed_in_order owner (tr @ [Call (Contract (PyInt (deployed_address d))) f args (Inl e)])"
  "accepted owner d tr \<Longrightarrow> deployed_in_order owner tr"
  by (simp_all add: accepted_def deployed_in_order_def)

lemma deploy_token_body_in_order:
  assumes "address acct = Some a"
  shows "hoare (not_yet (Some a)) (deploy_token_body w n a acct)
           (\<lambda>_. deployed_in_order (Some a)) (\<lambda>_. deployed_in_order (Some a))"
  unfolding deploy_token_body_def Let_def
  apply (rule hoare_case_sum)
   apply (intro hoare_if hoare_raise hoare_bind [where R = "\<lambda>_. not_yet (Some a)"] hoare_say
      hoare_return)
     apply (simp_all add: not_yet_steps) [3]
  apply (intro hoare_deploy_wait [where P = "not_yet (Some a)" and Q = "accepted (Some a)"]
      hoare_seq [where I = "not_yet (Some a)"] hoare_seq [where I = "accepted (Some a) d" for d]
      hoare_say hoare_say2 hoare_fprint hoare_call hoare_lift hoare_dump_json hoare_return)
                      apply (simp_all add: not_yet_steps accepted_steps assms)
  done

lemma Account_address: "Account w a u k c = Inr acct \<Longrightarrow> address acct = a"
  by (auto simp: Account_def split: option.splits)

lemma session_cases:
  "deploy_token_session w [] = (r, tr) \<Longrightarrow>
     not_yet owner tr \<and>
     (case r of Inl e \<Rightarrow> True
      | Inr (n, a, acct) \<Rightarrow> getenv w ''ACCOUNT_ADDRESS'' = Some a \<and> address acct = Some a)"
  unfolding deploy_token_session_def Let_def
  by (auto simp: bindP_def fprint_def emit_def raiseP_def returnP_def lift_def not_yet_def
      split: option.splits if_splits sum.splits prod.splits dest: Account_address)

lemma deploy_token_in_order:
  "deployed_in_order (getenv w ''ACCOUNT_ADDRESS'') (snd (deploy_token w []))"
proof (cases "deploy_token_session w []")
  case (Pair r tr)
  note s = session_cases [OF Pair, of "getenv w ''ACCOUNT_ADDRESS''"]
  show ?thesis
  proof (cases r)
    case (Inl e)
    with Pair s show ?thesis
      by (simp add: deploy_token_def bindP_def not_yet_steps)
  next
    case (Inr x)
    obtain n a acct where x: "x = (n, a, acct)" by (cases x) auto
    from s Inr x have env: "getenv w ''ACCOUNT_ADDRESS'' = Some a"
      and acct: "address acct = Some a" and ny: "not_yet (Some a) tr"
      by auto
    from hoare_run [OF deploy_token_body_in_order [OF acct] ny, of w n]
    have "deployed_in_order (Some a) (snd (deploy_token_body w n a acct tr))"
      by (auto split: prod.splits sum.splits)
    with Pair Inr x env show ?thesis
      by (simp add: deploy_token_def bindP_def)
  qed
qed

lemma bind_lift_Inr: "bindP (lift (Inr x)) f = f x"
  by (simp add: bindP_def lift_def)

lemma extends_step: "extends pre tr \<Longrightarrow> extends pre (tr @ evs)"
  by (auto simp: extends_def)

lemma hoare_grow:
  "hoare (extends pre) m (\<lambda>_. extends pre) (\<lambda>_. extends pre)
   \<Longrightarrow> (\<And>tr x. extends pre tr \<Longrightarrow> Q x tr) \<Longrightarrow> (\<And>tr e. extends pre tr \<Longrightarrow> E e tr)
   \<Longrightarrow> hoare (extends pre) m Q E"
  by (rule hoare_weaken)

lemma deploy_token_body_submits:
  assumes "contract_class_file w = Holds cc" and "cc ''abi'' = Some abi"
  shows "hoare (\<lambda>t. t = tr) (deploy_token_body w n a acct)
           (\<lambda>x t. submitted_and_awaited tr acct abi a (Inr x, t))
           (\<lambda>e t. submitted_and_awaited tr acct abi a (Inl e, t))"
  unfolding deploy_token_body_def Let_def open_json_def assms stored.case sum.case
    subscript_def option.case bind_lift_Inr
  apply (rule hoare_bind [where R = "\<lambda>_ t. t = tr @ [Print ''Deploying contract...'']"])
   apply (rule hoare_say)
   apply simp
  apply (rule hoare_deploy_wait
      [where Q = "\<lambda>d. extends (tr @ [Print ''Deploying contract...'',
                   Deploy acct None abi [PyStr a] 1 (Inr d),
                   Print ''Waiting for deployment confirmation...'', Wait (hash d) (Inr ())])"])
     apply (simp add: submitted_and_awaited_def)
    apply (simp add: submitted_and_awaited_def)
   apply (simp add: extends_def)
  apply (rule hoare_grow)
    apply (intro hoare_seq [where I = "extends pre" for pre]
      hoare_say hoare_say2 hoare_fprint hoare_call hoare_lift hoare_dump_json hoare_return)
                      apply (simp_all add: extends_step)
   apply (auto simp: submitted_and_awaited_def extends_def)
  done

lemma demo_session:
  "deploy_token_session demo_world [] =
     (Inr (''testnet'', ''0xabc'',
           \<lparr>address = Some ''0xabc'', node_url = ''https://alpha4.starknet.io'',
            key_pair = 1, chain = TESTNET\<rparr>),
      [Print ''Deploying Hancoin Token to testnet...'', Print ''Account: 0xabc''])"
  by code_simp

text \<open>
  Claim C9. The deploy flow submits the deployment and awaits it: once the session is
  built and the compiled class holds an \<open>abi\<close>, the run shows the deployment submitted
  for the signing account with exactly one constructor argument, the deployer's own
  account address (the value of \<open>ACCOUNT_ADDRESS\<close>), and, when the submission returns,
  the wait for its acceptance as the next remote operation. In every run, the handle of
  the deployed contract is called only after that wait has returned, and only at the
  deployed address; a submission or a wait that raises ends the run.
\<close>

theorem deploy_owner_then_accept:
  "deployed_in_order (getenv w ''ACCOUNT_ADDRESS'') (snd (deploy_token w []))
   \<and> (deploy_token_session w [] = (Inr (n, a, acct), tr)
        \<and> contract_class_file w = Holds cc \<and> cc ''abi'' = Some abi
        \<longrightarrow> getenv w ''ACCOUNT_ADDRESS'' = Some a \<and> address acct = Some a
            \<and> submitted_and_awaited tr acct abi a (deploy_token w []))"
proof (intro conjI impI)
  show "deployed_in_order (getenv w ''ACCOUNT_ADDRESS'') (snd (deploy_token w []))"
    by (rule deploy_token_in_order)
next
  assume h: "deploy_token_session w [] = (Inr (n, a, acct), tr)
             \<and> contract_class_file w = Holds cc \<and> cc ''abi'' = Some abi"
  from session_cases [of w "Inr (n, a, acct)" tr None] h
  show "getenv w ''ACCOUNT_ADDRESS'' = Some a" by simp
next
  assume h: "deploy_token_session w [] = (Inr (n, a, acct), tr)
             \<and> contract_class_file w = Holds cc \<and> cc ''abi'' = Some abi"
  from session_cases [of w "Inr (n, a, acct)" tr None] h
  show "address acct = Some a" by simp
next
  assume h: "deploy_token_session w [] = (Inr (n, a, acct), tr)
             \<and> contract_class_file w = Holds cc \<and> cc ''abi'' = Some abi"
  then have run: "deploy_token w [] = deploy_token_body w n a acct tr"
    by (simp add: deploy_token_def bindP_def)
  from h have c: "contract_class_file w = Holds cc" and ab: "cc ''abi'' = Some abi"
    by simp_all
  from hoare_run [OF deploy_token_body_submits [OF c ab, of tr n a acct], of tr]
  have "submitted_and_awaited tr acct abi a (deploy_token_body w n a acct tr)"
    by (cases "deploy_token_body w n a acct tr") (auto split: sum.splits)
  with run show "submitted_and_awaited tr acct abi a (deploy_token w [])"
    by simp
qed

theorem deploy_owner_then_accept_witness:
  "deploy_token_session demo_world [] =
     (Inr (''testnet'', ''0xabc'',
           \<lparr>address = Some ''0xabc'', node_url = ''https://alpha4.starknet.io'',
            key_pair = 1, chain = TESTNET\<rparr>),
      [Print ''Deploying Hancoin Token to testnet...'', Print ''Account: 0xabc''])
   \<and> contract_class_file demo_world = Holds [''abi'' \<mapsto> JObj []]
   \<and> deployed_in_order (getenv demo_world ''ACCOUNT_ADDRESS'') (snd (deploy_token demo_world []))
   \<and> getenv demo_world ''ACCOUNT_ADDRESS'' = Some ''0xabc''
   \<and> submitted_and_awaited
        [Print ''Deploying Hancoin Token to testnet...'', Print ''Account: 0xabc'']
        \<lparr>address = Some ''0xabc'', node_url = ''https://alpha4.starknet.io'',
         key_pair = 1, chain = TESTNET\<rparr>
        (JObj []) ''0xabc'' (deploy_token demo_world [])"
proof -
  have f: "contract_class_file demo_world = Holds [''abi'' \<mapsto> JObj []]"
    by (simp add: demo_world_def)
  have g: "[''abi'' \<mapsto> JObj []] ''abi'' = Some (JObj [])"
    by simp
  note t = deploy_owner_then_accept [of demo_world "''testnet''" "''0xabc''"
      "\<lparr>address = Some ''0xabc'', node_url = ''https://alpha4.starknet.io'',
        key_pair = 1, chain = TESTNET\<rparr>"
      "[Print ''Deploying Hancoin Token to testnet...'', Print ''Account: 0xabc'']"
      "[''abi'' \<mapsto> JObj []]" "JObj []"]
  from t demo_session f g show ?thesis by blast
qed

section \<open>The five handles come first\<close>















end
